theory Spec2Isabelle
  imports Complex_Main
begin

section \<open>JavaScript values\<close>

text \<open>
  The scene components (\<^verbatim>\<open>components/GalaxyScene.tsx\<close>, three revisions) compute on
  JavaScript numbers and store them in typed arrays. A number is modelled as a real or
  one of the three IEEE special values. The operations below are exact on the reals, and
  the sign of zero is not modelled (a zero divisor counts as \<open>+0\<close>). The two effects of
  the finite formats are added where a result depends on them: overflow to infinity in
  the generators whose values grow with the configuration, and rounding to nearest in the
  periodic supernova step (see \<open>double_range\<close>, \<open>to_double\<close> and their single-precision
  counterparts).
\<close>

datatype jsnum = Fin real | PInf | NInf | NaN

fun is_fin :: "jsnum \<Rightarrow> bool" where
  "is_fin (Fin x) = True"
| "is_fin PInf = False"
| "is_fin NInf = False"
| "is_fin NaN = False"

instantiation jsnum :: "{plus, minus, uminus, times, inverse}"
begin

fun uminus_jsnum :: "jsnum \<Rightarrow> jsnum" where
  "uminus_jsnum (Fin x) = Fin (- x)"
| "uminus_jsnum PInf = NInf"
| "uminus_jsnum NInf = PInf"
| "uminus_jsnum NaN = NaN"

fun plus_jsnum :: "jsnum \<Rightarrow> jsnum \<Rightarrow> jsnum" where
  "plus_jsnum (Fin x) (Fin y) = Fin (x + y)"
| "plus_jsnum NaN b = NaN"
| "plus_jsnum a NaN = NaN"
| "plus_jsnum PInf NInf = NaN"
| "plus_jsnum NInf PInf = NaN"
| "plus_jsnum PInf b = PInf"
| "plus_jsnum a PInf = PInf"
| "plus_jsnum NInf b = NInf"
| "plus_jsnum a NInf = NInf"

definition minus_jsnum :: "jsnum \<Rightarrow> jsnum \<Rightarrow> jsnum" where
  "minus_jsnum a b = a + (- b)"

fun times_jsnum :: "jsnum \<Rightarrow> jsnum \<Rightarrow> jsnum" where
  "times_jsnum (Fin x) (Fin y) = Fin (x * y)"
| "times_jsnum NaN b = NaN"
| "times_jsnum a NaN = NaN"
| "times_jsnum (Fin x) PInf = (if x = 0 then NaN else if x < 0 then NInf else PInf)"
| "times_jsnum (Fin x) NInf = (if x = 0 then NaN else if x < 0 then PInf else NInf)"
| "times_jsnum PInf (Fin y) = (if y = 0 then NaN else if y < 0 then NInf else PInf)"
| "times_jsnum NInf (Fin y) = (if y = 0 then NaN else if y < 0 then PInf else NInf)"
| "times_jsnum PInf PInf = PInf"
| "times_jsnum PInf NInf = NInf"
| "times_jsnum NInf PInf = NInf"
| "times_jsnum NInf NInf = PInf"

fun divide_jsnum :: "jsnum \<Rightarrow> jsnum \<Rightarrow> jsnum" where
  "divide_jsnum (Fin x) (Fin y) =
     (if y = 0 then (if x = 0 then NaN else if x < 0 then NInf else PInf) else Fin (x / y))"
| "divide_jsnum NaN b = NaN"
| "divide_jsnum a NaN = NaN"
| "divide_jsnum (Fin x) PInf = Fin 0"
| "divide_jsnum (Fin x) NInf = Fin 0"
| "divide_jsnum PInf (Fin y) = (if y < 0 then NInf else PInf)"
| "divide_jsnum NInf (Fin y) = (if y < 0 then PInf else NInf)"
| "divide_jsnum PInf PInf = NaN"
| "divide_jsnum PInf NInf = NaN"
| "divide_jsnum NInf PInf = NaN"
| "divide_jsnum NInf NInf = NaN"

definition inverse_jsnum :: "jsnum \<Rightarrow> jsnum" where
  "inverse_jsnum a = divide (Fin 1) a"

instance ..

end

text \<open>
  The functions of \<^verbatim>\<open>Math\<close> that the scenes call, and the comparison \<^verbatim>\<open>a > b\<close>.
  \<^verbatim>\<open>Math.pow\<close> is given for a finite exponent, which is all the scenes pass.
\<close>

fun Math_sqrt :: "jsnum \<Rightarrow> jsnum" where
  "Math_sqrt (Fin x) = (if x < 0 then NaN else Fin (sqrt x))"
| "Math_sqrt PInf = PInf"
| "Math_sqrt NInf = NaN"
| "Math_sqrt NaN = NaN"

fun Math_sin :: "jsnum \<Rightarrow> jsnum" where
  "Math_sin (Fin x) = Fin (sin x)"
| "Math_sin PInf = NaN"
| "Math_sin NInf = NaN"
| "Math_sin NaN = NaN"

fun Math_cos :: "jsnum \<Rightarrow> jsnum" where
  "Math_cos (Fin x) = Fin (cos x)"
| "Math_cos PInf = NaN"
| "Math_cos NInf = NaN"
| "Math_cos NaN = NaN"

fun Math_acos :: "jsnum \<Rightarrow> jsnum" where
  "Math_acos (Fin x) = (if - 1 \<le> x \<and> x \<le> 1 then Fin (arccos x) else NaN)"
| "Math_acos PInf = NaN"
| "Math_acos NInf = NaN"
| "Math_acos NaN = NaN"

fun Math_max :: "jsnum \<Rightarrow> jsnum \<Rightarrow> jsnum" where
  "Math_max (Fin x) (Fin y) = Fin (max x y)"
| "Math_max NaN b = NaN"
| "Math_max a NaN = NaN"
| "Math_max PInf b = PInf"
| "Math_max a PInf = PInf"
| "Math_max NInf b = b"
| "Math_max a NInf = a"

fun js_gt :: "jsnum \<Rightarrow> jsnum \<Rightarrow> bool" where
  "js_gt (Fin x) (Fin y) = (x > y)"
| "js_gt NaN b = False"
| "js_gt a NaN = False"
| "js_gt PInf PInf = False"
| "js_gt PInf b = True"
| "js_gt a PInf = False"
| "js_gt NInf b = False"
| "js_gt a NInf = True"

definition is_integer :: "real \<Rightarrow> bool" where
  "is_integer e = (real_of_int \<lfloor>e\<rfloor> = e)"

definition Math_pow :: "jsnum \<Rightarrow> real \<Rightarrow> jsnum" where
  "Math_pow b e =
     (if e = 0 then Fin 1
      else case b of
        NaN \<Rightarrow> NaN
      | PInf \<Rightarrow> (if e > 0 then PInf else Fin 0)
      | NInf \<Rightarrow> (if e > 0 then (if is_integer e \<and> odd \<lfloor>e\<rfloor> then NInf else PInf) else Fin 0)
      | Fin x \<Rightarrow>
          (if x > 0 then Fin (x powr e)
           else if x = 0 then (if e > 0 then Fin 0 else PInf)
           else if is_integer e then Fin (power_int x \<lfloor>e\<rfloor>)
           else NaN))"

text \<open>
  The remainder operator \<^verbatim>\<open>a % b\<close> on finite operands: the result has the sign of the
  dividend, and a zero divisor gives \<^verbatim>\<open>NaN\<close>.
\<close>

definition trunc :: "real \<Rightarrow> int" where
  "trunc x = (if x \<ge> 0 then \<lfloor>x\<rfloor> else \<lceil>x\<rceil>)"

definition fmod :: "real \<Rightarrow> real \<Rightarrow> real" where
  "fmod a b = a - b * real_of_int (trunc (a / b))"

definition js_rem :: "real \<Rightarrow> real \<Rightarrow> jsnum" where
  "js_rem a b = (if b = 0 then NaN else Fin (fmod a b))"

subsection \<open>Range and rounding of the two number formats\<close>

text \<open>
  A double holds the magnitudes below \<open>2^1024 - 2^970\<close> and a single those below
  \<open>2^128 - 2^103\<close>: a result of at least that magnitude is \<open>\<plusminus>Infinity\<close>.
  \<open>double_range\<close> and \<open>single_range\<close> apply this to a value and keep it exact otherwise.
\<close>

definition overflow :: "real \<Rightarrow> jsnum \<Rightarrow> jsnum" where
  "overflow bound a =
     (case a of
        Fin x \<Rightarrow> (if bound \<le> x then PInf else if x \<le> - bound then NInf else Fin x)
      | PInf \<Rightarrow> PInf
      | NInf \<Rightarrow> NInf
      | NaN \<Rightarrow> NaN)"

definition double_range :: "jsnum \<Rightarrow> jsnum" where
  "double_range = overflow (2 ^ 1024 - 2 ^ 970)"

definition single_range :: "jsnum \<Rightarrow> jsnum" where
  "single_range = overflow (2 ^ 128 - 2 ^ 103)"

text \<open>
  Rounding to the nearest number with \<open>p\<close> significant bits and binary exponent at least
  \<open>emin\<close>, ties to the even significand: \<open>binexp x\<close> is the exponent \<open>e\<close> with
  \<open>2^e \<le> \<bar>x\<bar> < 2^(e + 1)\<close>, and \<open>x\<close> is rounded to a multiple of the unit in the last
  place \<open>2^(e - p + 1)\<close>. \<open>rd64\<close> and \<open>rd32\<close> are the roundings of a double and of a
  single; \<open>to_double\<close> is the result of an arithmetic operation whose exact value is
  given, \<open>to_single\<close> the value that a store into a \<^verbatim>\<open>Float32Array\<close> keeps.
\<close>

definition binexp :: "real \<Rightarrow> int" where
  "binexp x = \<lfloor>log 2 \<bar>x\<bar>\<rfloor>"

definition round_even :: "real \<Rightarrow> int" where
  "round_even x =
     (let n = \<lfloor>x\<rfloor>; d = x - real_of_int n
      in if d < 1 / 2 then n else if 1 / 2 < d then n + 1 else if even n then n else n + 1)"

definition round_to :: "nat \<Rightarrow> int \<Rightarrow> real \<Rightarrow> real" where
  "round_to p emin x =
     (if x = 0 then 0
      else let ulp = 2 powi (max (binexp x) emin - int p + 1)
           in real_of_int (round_even (x / ulp)) * ulp)"

definition rd64 :: "real \<Rightarrow> real" where
  "rd64 = round_to 53 (- 1022)"

definition rd32 :: "real \<Rightarrow> real" where
  "rd32 = round_to 24 (- 126)"

definition to_double :: "jsnum \<Rightarrow> jsnum" where
  "to_double a = double_range (case a of Fin x \<Rightarrow> Fin (rd64 x) | _ \<Rightarrow> a)"

definition to_single :: "jsnum \<Rightarrow> jsnum" where
  "to_single a = single_range (case a of Fin x \<Rightarrow> Fin (rd32 x) | _ \<Rightarrow> a)"

subsection \<open>Strings and the two enums of \<^verbatim>\<open>types.ts\<close>\<close>

text \<open>
  A string is its sequence of UTF-16 code units, and \<^verbatim>\<open>===\<close> on strings is equality
  of these sequences. The members of \<^verbatim>\<open>GalaxyType\<close> and \<^verbatim>\<open>CosmicEvent\<close> are string
  constants at run time; the field \<^verbatim>\<open>type\<close> can hold any string. \<^verbatim>\<open>starsCount\<close> and
  \<^verbatim>\<open>branches\<close> are integers, the other numbers of a configuration are finite reals.
\<close>

type_synonym js_string = "nat list"

definition SPIRAL :: js_string where
  "SPIRAL = [0x645, 0x627, 0x631, 0x67E, 0x6CC, 0x686, 0x6CC]"

definition BARRED_SPIRAL :: js_string where
  "BARRED_SPIRAL = [0x645, 0x627, 0x631, 0x67E, 0x6CC, 0x686, 0x6CC, 0x20,
                    0x645, 0x6CC, 0x644, 0x647, 0x200C, 0x627, 0x6CC]"

definition ELLIPTICAL :: js_string where
  "ELLIPTICAL = [0x628, 0x6CC, 0x636, 0x648, 0x6CC]"

definition IRREGULAR :: js_string where
  "IRREGULAR = [0x646, 0x627, 0x645, 0x646, 0x638, 0x645]"

definition LENTICULAR :: js_string where
  "LENTICULAR = [0x639, 0x62F, 0x633, 0x6CC]"

definition COLLISION :: js_string where
  "COLLISION = [0x628, 0x631, 0x62E, 0x648, 0x631, 0x62F, 0x20, 0x62F, 0x648, 0x20,
                0x6A9, 0x647, 0x6A9, 0x634, 0x627, 0x646]"

definition SUPERNOVA :: js_string where
  "SUPERNOVA = [0x627, 0x646, 0x641, 0x62C, 0x627, 0x631, 0x20, 0x627, 0x628, 0x631,
                0x646, 0x648, 0x627, 0x62E, 0x62A, 0x631]"

definition QUASAR :: js_string where
  "QUASAR = [0x6A9, 0x648, 0x627, 0x632, 0x627, 0x631, 0x20, 0x28, 0x647, 0x633,
             0x62A, 0x647, 0x20, 0x641, 0x639, 0x627, 0x644, 0x29]"

definition galaxy_types :: "js_string set" where
  "galaxy_types = {SPIRAL, BARRED_SPIRAL, ELLIPTICAL, IRREGULAR, LENTICULAR}"


record GalaxyParams =
  type :: js_string
  starsCount :: int
  radius :: real
  branches :: int
  spin :: real
  randomness :: real
  randomnessPower :: real
  insideColor :: js_string
  outsideColor :: js_string
  isEvent :: "bool option"

subsection \<open>Typed arrays and the objects of the rendering library\<close>

text \<open>
  A \<^verbatim>\<open>Float32Array\<close> is a list of numbers of fixed length. \<^verbatim>\<open>new Float32Array(n)\<close>
  throws a \<^verbatim>\<open>RangeError\<close> for a negative length and for a length that the engine does
  not allocate, and is filled with zeros otherwise. A length above \<open>2^53 - 1\<close> is never
  allocated (the bound of the language); below it the greatest length allocated depends
  on the engine and its memory, and is the parameter \<open>limit\<close> of the generators. The
  fixed lengths of the events (at most \<open>600000\<close>) are allocated by every engine that
  runs the scene: the event generators are written without the check. A read out of
  range gives \<^verbatim>\<open>undefined\<close>, which is \<^verbatim>\<open>NaN\<close> in arithmetic; a write out of range is
  ignored, as \<open>xs[i := v]\<close> is. Reading an element of \<^verbatim>\<open>undefined\<close> throws a
  \<^verbatim>\<open>TypeError\<close>.
\<close>

datatype error = RangeError | TypeError

definition allocatable :: "int \<Rightarrow> int \<Rightarrow> bool" where
  "allocatable limit n = (0 \<le> n \<and> n \<le> limit \<and> n \<le> 2 ^ 53 - 1)"

definition Float32Array :: "int \<Rightarrow> int \<Rightarrow> error + jsnum list" where
  "Float32Array limit n =
     (if allocatable limit n then Inr (replicate (nat n) (Fin 0)) else Inl RangeError)"

definition aget :: "jsnum list \<Rightarrow> nat \<Rightarrow> jsnum" where
  "aget xs i = (if i < length xs then xs ! i else NaN)"

text \<open>\<^verbatim>\<open>isA[i] ? a : b\<close> on a \<^verbatim>\<open>Uint8Array\<close>: out of range is \<^verbatim>\<open>undefined\<close>, which is falsy.\<close>

definition truthy_at :: "nat list \<Rightarrow> nat \<Rightarrow> bool" where
  "truthy_at xs i = (i < length xs \<and> xs ! i \<noteq> 0)"

text \<open>
  \<^verbatim>\<open>THREE.Color\<close> and \<^verbatim>\<open>THREE.Vector3\<close> are triples of numbers. Parsing a colour string
  (\<^verbatim>\<open>new THREE.Color(s)\<close>) and \<^verbatim>\<open>offsetHSL\<close> belong to the library: the generators
  take them as the parameters \<open>mkColor\<close> and \<open>offsetHSL\<close>. \<^verbatim>\<open>lerp\<close> is the library's
  \<^verbatim>\<open>this.r += (color.r - this.r) * alpha\<close>, on each component.
\<close>

type_synonym vec3 = "jsnum \<times> jsnum \<times> jsnum"

definition fin3 :: "real \<times> real \<times> real \<Rightarrow> vec3" where
  "fin3 v = (case v of (a, b, c) \<Rightarrow> (Fin a, Fin b, Fin c))"

definition lerp1 :: "jsnum \<Rightarrow> jsnum \<Rightarrow> jsnum \<Rightarrow> jsnum" where
  "lerp1 a b alpha = a + (b - a) * alpha"

definition lerp :: "vec3 \<Rightarrow> vec3 \<Rightarrow> jsnum \<Rightarrow> vec3" where
  "lerp u v alpha =
     (case u of (a, b, c) \<Rightarrow> case v of (a', b', c') \<Rightarrow>
        (lerp1 a a' alpha, lerp1 b b' alpha, lerp1 c c' alpha))"

definition vadd :: "vec3 \<Rightarrow> vec3 \<Rightarrow> vec3" where
  "vadd u v = (case u of (a, b, c) \<Rightarrow> case v of (a', b', c') \<Rightarrow> (a + a', b + b', c + c'))"

text \<open>
  Writing the three components of particle \<open>i\<close>, and the three components as single
  precision holds them.
\<close>

definition put3 :: "jsnum list \<Rightarrow> nat \<Rightarrow> vec3 \<Rightarrow> jsnum list" where
  "put3 xs i v = (case v of (a, b, c) \<Rightarrow> xs[i * 3 := a, i * 3 + 1 := b, i * 3 + 2 := c])"

definition single3 :: "vec3 \<Rightarrow> vec3" where
  "single3 v = (case v of (a, b, c) \<Rightarrow> (single_range a, single_range b, single_range c))"

text \<open>
  The \<^verbatim>\<open>THREE.Points\<close> object held in \<^verbatim>\<open>sceneRef.current.stars\<close>: the two attributes of
  its geometry, the arrays that the generators keep in \<^verbatim>\<open>geometry.userData\<close> (absent
  ones are \<^verbatim>\<open>undefined\<close>), the rotation about the vertical axis and the opacity of
  its material.
\<close>

record Points =
  position :: "jsnum list"
  color :: "jsnum list"
  velocities :: "jsnum list option"
  initialPositions :: "jsnum list option"
  isGalaxyA :: "nat list option"
  rotation_y :: real
  opacity :: real

text \<open>\<^verbatim>\<open>for (let i = 0; i < n; i++) body\<close>, on the state that the body updates.\<close>

definition for_loop :: "nat \<Rightarrow> (nat \<Rightarrow> 's \<Rightarrow> 's) \<Rightarrow> 's \<Rightarrow> 's" where
  "for_loop n body s = fold body [0..<n] s"

definition zeros :: "nat \<Rightarrow> jsnum list" where
  "zeros n = replicate n (Fin 0)"

section \<open>Generation\<close>

text \<open>
  The effect that runs when \<^verbatim>\<open>params\<close> changes builds the arrays of the new
  \<^verbatim>\<open>stars\<close> object. \<open>rnd\<close> is the sequence of results of \<^verbatim>\<open>Math.random()\<close>, each in
  \<open>[0, 1)\<close>; the loop state carries the number \<open>k\<close> of results used so far, so that
  every call takes the next one, in the order in which JavaScript evaluates the calls.
  Sums and products of finite values that cannot leave the finite numbers are written
  on the reals. The auxiliary objects (core, glow, jets, black hole) are not part of
  \<^verbatim>\<open>stars\<close> and are left out.

  The generators are modelled without rounding. Where a value grows with
  \<^verbatim>\<open>params.radius\<close>, \<^verbatim>\<open>params.spin\<close>, \<^verbatim>\<open>params.randomness\<close> or
  \<^verbatim>\<open>params.randomnessPower\<close>, overflow is modelled: a position stored in a
  \<^verbatim>\<open>Float32Array\<close> passes \<open>single_range\<close>, and a product or sum of two such values, or a
  power with such an exponent, passes \<open>double_range\<close>. A product with a sine, a cosine, a
  result of \<^verbatim>\<open>Math.random()\<close>, a power of such a result with a positive constant
  exponent or a constant of magnitude below one is not greater than its other factor, and the sum of a
  double and a constant of the scene cannot exceed the greatest double: these are written
  without the check. The components of a colour of the library lie in \<open>[0, 1]\<close> and are
  stored as they are.
\<close>

type_synonym rng = "nat \<Rightarrow> real"

subsection \<open>Revision \<^verbatim>\<open>part_001\<close>\<close>

fun supernova_body_p1 ::
  "rng \<Rightarrow> nat \<Rightarrow> nat \<times> jsnum list \<times> jsnum list \<times> jsnum list
     \<Rightarrow> nat \<times> jsnum list \<times> jsnum list \<times> jsnum list" where
  "supernova_body_p1 rnd i (k, positions, colors, vels) =
     (let theta = Fin (rnd k * pi * 2);
          phi = Math_acos (Fin (rnd (k + 1) * 2 - 1));
          speed = Fin 0.8 + Math_pow (Fin (rnd (k + 2))) 2 * Fin 5.0;
          positions = put3 positions i
            (Fin ((rnd (k + 3) - 0.5) * 0.5), Fin ((rnd (k + 4) - 0.5) * 0.5),
             Fin ((rnd (k + 5) - 0.5) * 0.5));
          vels = put3 vels i
            (Math_sin phi * Math_cos theta * speed, Math_sin phi * Math_sin theta * speed,
             Math_cos phi * speed);
          colors = put3 colors i (Fin 1, Fin 1, Fin 1)
      in (k + 6, positions, colors, vels))"

definition generate_supernova_p1 :: "rng \<Rightarrow> Points" where
  "generate_supernova_p1 rnd =
     (let count = 100000 in
      case for_loop count (supernova_body_p1 rnd)
             (0, zeros (count * 3), zeros (count * 3), zeros (count * 3)) of
        (k, positions, colors, vels) \<Rightarrow>
          \<lparr>position = positions, color = colors, velocities = Some vels,
           initialPositions = None, isGalaxyA = None, rotation_y = 0, opacity = 0.8\<rparr>)"

text \<open>
  The accretion disk of the quasar. The two revisions differ in constants only:
  \<open>(r0, e, rs, ys, cd)\<close> is \<open>(0.8, 1.5, 6.0, 0.1, 6)\<close> in \<^verbatim>\<open>part_001\<close>
  (\<^verbatim>\<open>r = 0.8 + Math.pow(Math.random(), 1.5) * 6.0\<close>, height factor \<open>0.1\<close>, colour
  fraction \<^verbatim>\<open>r/6\<close>) and \<open>(0.5, 1.2, 8.0, 0.15, 8)\<close> in the second revision of
  \<^verbatim>\<open>part_002\<close>.
\<close>

fun quasar_body ::
  "real \<times> real \<times> real \<times> real \<times> real \<Rightarrow> vec3 \<Rightarrow> vec3 \<Rightarrow> rng \<Rightarrow> nat
     \<Rightarrow> nat \<times> jsnum list \<times> jsnum list \<Rightarrow> nat \<times> jsnum list \<times> jsnum list" where
  "quasar_body (r0, e, rs, ys, cd) colorInside colorOutside rnd i (k, pos, cols) =
     (let r = Fin r0 + Math_pow (Fin (rnd k)) e * Fin rs;
          angle = Fin (rnd (k + 1) * pi * 2);
          pos = put3 pos i
            (Math_cos angle * r, Fin ((rnd (k + 2) - 0.5) * ys) * (Fin 1 / r),
             Math_sin angle * r);
          mix = lerp colorInside colorOutside (r / Fin cd)
      in (k + 3, pos, put3 cols i mix))"

definition generate_quasar ::
  "real \<times> real \<times> real \<times> real \<times> real \<Rightarrow> nat \<Rightarrow> real \<Rightarrow> vec3 \<Rightarrow> vec3 \<Rightarrow> rng \<Rightarrow> Points" where
  "generate_quasar cst count op colorInside colorOutside rnd =
     (case for_loop count (quasar_body cst colorInside colorOutside rnd)
             (0, zeros (count * 3), zeros (count * 3)) of
        (k, pos, cols) \<Rightarrow>
          \<lparr>position = pos, color = cols, velocities = None,
           initialPositions = None, isGalaxyA = None, rotation_y = 0, opacity = op\<rparr>)"

fun collision_body_p1 ::
  "GalaxyParams \<Rightarrow> vec3 \<Rightarrow> vec3 \<Rightarrow> rng \<Rightarrow> nat
     \<Rightarrow> nat \<times> jsnum list \<times> jsnum list \<Rightarrow> nat \<times> jsnum list \<times> jsnum list" where
  "collision_body_p1 params colorInside colorOutside rnd i (k, pos, cols) =
     (let coreA = (Fin (- 4), Fin 0, Fin 0);
          coreB = (Fin 4, Fin 1, Fin 2);
          isGalaxyA = (real i < real_of_int (starsCount params) * 0.5);
          targetCore = (if isGalaxyA then coreA else coreB);
          otherCore = (if isGalaxyA then coreB else coreA);
          r = Math_pow (Fin (rnd k)) 1.4 * Fin (radius params);
          angle = Fin (rnd (k + 1) * pi * 2);
          starPos = vadd (Math_cos angle * r, Fin ((rnd (k + 2) - 0.5) * 0.6), Math_sin angle * r)
                      targetCore;
          thrown = (rnd (k + 3) > 0.75);
          starPos = (if thrown then lerp starPos otherCore (Fin (rnd (k + 4) * 0.7)) else starPos);
          mix = lerp colorInside colorOutside (r / Fin (radius params))
      in (if thrown then k + 5 else k + 4, put3 pos i (single3 starPos), put3 cols i mix))"

definition generate_collision_p1 ::
  "int \<Rightarrow> GalaxyParams \<Rightarrow> vec3 \<Rightarrow> vec3 \<Rightarrow> rng \<Rightarrow> error + Points" where
  "generate_collision_p1 limit params colorInside colorOutside rnd =
     (case Float32Array limit (starsCount params * 3) of
        Inl e \<Rightarrow> Inl e
      | Inr zs \<Rightarrow>
          (case for_loop (nat (starsCount params))
                  (collision_body_p1 params colorInside colorOutside rnd) (0, zs, zs) of
             (k, pos, cols) \<Rightarrow>
               Inr \<lparr>position = pos, color = cols, velocities = None,
                    initialPositions = None, isGalaxyA = None, rotation_y = 0, opacity = 0.8\<rparr>))"

text \<open>
  The standard galaxy. The two revisions differ in four constants: the flattening
  \<open>ey\<close>, \<open>ez\<close> of the elliptical galaxy, the bulge radius factor \<open>br\<close> and the disk
  height factor \<open>dy\<close> of the lenticular one: \<open>(0.7, 0.85, 0.35, 0.12)\<close> in
  \<^verbatim>\<open>part_001\<close>, \<open>(0.75, 0.9, 0.4, 0.1)\<close> in the second revision of \<^verbatim>\<open>part_002\<close>.
\<close>

definition jitter :: "GalaxyParams \<Rightarrow> rng \<Rightarrow> nat \<Rightarrow> jsnum \<Rightarrow> jsnum" where
  "jitter params rnd k rad =
     double_range
       (double_range
          (double_range (Math_pow (Fin (rnd k)) (randomnessPower params))
             * Fin (if rnd (k + 1) < 0.5 then 1 else - 1) * Fin (randomness params))
        * rad)"

fun standard_place ::
  "real \<times> real \<times> real \<times> real \<Rightarrow> GalaxyParams \<Rightarrow> rng \<Rightarrow> nat \<Rightarrow> nat \<Rightarrow> jsnum \<Rightarrow> nat \<times> vec3" where
  "standard_place (ey, ez, br, dy) params rnd i k rad =
     (let spinAngle = double_range (rad * Fin (spin params));
          branchAngle = js_rem (real i) (real_of_int (branches params))
                          / Fin (real_of_int (branches params)) * Fin pi * Fin 2;
          totalAngle = double_range (spinAngle + branchAngle);
          rx = jitter params rnd (k + 1) rad;
          ry = jitter params rnd (k + 3) rad;
          rz = jitter params rnd (k + 5) rad
      in if type params = ELLIPTICAL then
           (let theta = Fin (rnd (k + 7) * pi * 2);
                phi = Math_acos (Fin (rnd (k + 8) * 2 - 1))
            in (k + 9,
                (Math_sin phi * Math_cos theta * rad, Math_sin phi * Math_sin theta * rad * Fin ey,
                 Math_cos phi * rad * Fin ez)))
         else if type params = LENTICULAR then
           (if real i < real_of_int (starsCount params) * 0.4 then
              (let rb = Math_pow (Fin (rnd (k + 7))) 2 * Fin (radius params * br);
                   theta = Fin (rnd (k + 8) * pi * 2);
                   phi = Math_acos (Fin (rnd (k + 9) * 2 - 1))
               in (k + 10,
                   (Math_sin phi * Math_cos theta * rb, Math_sin phi * Math_sin theta * rb * Fin 0.8,
                    Math_cos phi * rb)))
            else
              (k + 7,
               (double_range (Math_cos totalAngle * rad + rx), ry * Fin dy,
                double_range (Math_sin totalAngle * rad + rz))))
         else
           (k + 7,
            (double_range (Math_cos totalAngle * rad + rx), ry * Fin 0.3,
             double_range (Math_sin totalAngle * rad + rz))))"

text \<open>
  One pass of the loop: the sampled radius \<open>rad\<close>, the place of the star (by type), and
  the colour \<^verbatim>\<open>colorInside.clone().lerp(colorOutside, radius / params.radius)\<close>.
\<close>

fun standard_body ::
  "real \<times> real \<times> real \<times> real \<Rightarrow> GalaxyParams \<Rightarrow> vec3 \<Rightarrow> vec3 \<Rightarrow> rng \<Rightarrow> nat
     \<Rightarrow> nat \<times> jsnum list \<times> jsnum list \<Rightarrow> nat \<times> jsnum list \<times> jsnum list" where
  "standard_body cst params colorInside colorOutside rnd i (k, positions, colors) =
     (let rad = Math_pow (Fin (rnd k)) 1.5 * Fin (radius params);
          placed = standard_place cst params rnd i k rad;
          mix = lerp colorInside colorOutside (rad / Fin (radius params))
      in (fst placed, put3 positions i (single3 (snd placed)), put3 colors i mix))"

definition generate_standard ::
  "int \<Rightarrow> real \<times> real \<times> real \<times> real \<Rightarrow> real \<Rightarrow> GalaxyParams \<Rightarrow> vec3 \<Rightarrow> vec3 \<Rightarrow> rng
     \<Rightarrow> error + Points" where
  "generate_standard limit cst op params colorInside colorOutside rnd =
     (case Float32Array limit (starsCount params * 3) of
        Inl e \<Rightarrow> Inl e
      | Inr zs \<Rightarrow>
          (case for_loop (nat (starsCount params))
                  (standard_body cst params colorInside colorOutside rnd) (0, zs, zs) of
             (k, positions, colors) \<Rightarrow>
               Inr \<lparr>position = positions, color = colors, velocities = None,
                    initialPositions = None, isGalaxyA = None, rotation_y = 0, opacity = op\<rparr>))"

definition generate_p1 ::
  "int \<Rightarrow> (js_string \<Rightarrow> real \<times> real \<times> real) \<Rightarrow> rng \<Rightarrow> GalaxyParams \<Rightarrow> error + Points" where
  "generate_p1 limit mkColor rnd params =
     (let colorInside = fin3 (mkColor (insideColor params));
          colorOutside = fin3 (mkColor (outsideColor params))
      in if type params = SUPERNOVA then Inr (generate_supernova_p1 rnd)
         else if type params = QUASAR then
           Inr (generate_quasar (0.8, 1.5, 6.0, 0.1, 6) 150000 0.7 colorInside colorOutside rnd)
         else if type params = COLLISION then
           generate_collision_p1 limit params colorInside colorOutside rnd
         else generate_standard limit (0.7, 0.85, 0.35, 0.12) 0.65 params
                colorInside colorOutside rnd)"

subsection \<open>Second revision of \<^verbatim>\<open>part_002\<close>\<close>

fun supernova_body_p2b ::
  "rng \<Rightarrow> nat \<Rightarrow> nat \<times> jsnum list \<times> jsnum list \<Rightarrow> nat \<times> jsnum list \<times> jsnum list" where
  "supernova_body_p2b rnd i (k, cols, vels) =
     (let theta = Fin (rnd k * pi * 2);
          phi = Math_acos (Fin (rnd (k + 1) * 2 - 1));
          speed = Fin 0.2 + Math_pow (Fin (rnd (k + 2))) 2 * Fin 4.0;
          vels = put3 vels i
            (Math_sin phi * Math_cos theta * speed, Math_sin phi * Math_sin theta * speed,
             Math_cos phi * speed)
      in (k + 3, put3 cols i (Fin 1, Fin 1, Fin 1), vels))"

definition generate_supernova_p2b :: "rng \<Rightarrow> Points" where
  "generate_supernova_p2b rnd =
     (let count = 150000 in
      case for_loop count (supernova_body_p2b rnd) (0, zeros (count * 3), zeros (count * 3)) of
        (k, cols, vels) \<Rightarrow>
          \<lparr>position = zeros (count * 3), color = cols, velocities = Some vels,
           initialPositions = None, isGalaxyA = None, rotation_y = 0, opacity = 0.8\<rparr>)"

fun collision_body_p2b ::
  "GalaxyParams \<Rightarrow> vec3 \<Rightarrow> vec3 \<Rightarrow> (vec3 \<Rightarrow> real \<Rightarrow> real \<Rightarrow> real \<Rightarrow> vec3) \<Rightarrow> rng \<Rightarrow> nat
     \<Rightarrow> nat \<times> jsnum list \<times> jsnum list \<times> nat list
     \<Rightarrow> nat \<times> jsnum list \<times> jsnum list \<times> nat list" where
  "collision_body_p2b params colorInside colorOutside offsetHSL rnd i (k, cols, initialPos, isA) =
     (let isGalaxyA = (real i < 150000 * 0.5);
          isA = isA[i := (if isGalaxyA then 1 else 0)];
          r = Math_pow (Fin (rnd k)) 1.5 * Fin (radius params);
          a = Fin (rnd (k + 1) * pi * 2);
          initialPos = put3 initialPos i
            (single3 (Math_cos a * r, Fin ((rnd (k + 2) - 0.5) * 0.5), Math_sin a * r));
          mix = lerp colorInside colorOutside (r / Fin (radius params));
          mix = (if \<not> isGalaxyA then offsetHSL mix 0.5 0 0 else mix)
      in (k + 3, put3 cols i mix, initialPos, isA))"

definition generate_collision_p2b ::
  "GalaxyParams \<Rightarrow> vec3 \<Rightarrow> vec3 \<Rightarrow> (vec3 \<Rightarrow> real \<Rightarrow> real \<Rightarrow> real \<Rightarrow> vec3) \<Rightarrow> rng \<Rightarrow> Points" where
  "generate_collision_p2b params colorInside colorOutside offsetHSL rnd =
     (let count = 150000 in
      case for_loop count (collision_body_p2b params colorInside colorOutside offsetHSL rnd)
             (0, zeros (count * 3), zeros (count * 3), replicate count 0) of
        (k, cols, initialPos, isA) \<Rightarrow>
          \<lparr>position = zeros (count * 3), color = cols, velocities = None,
           initialPositions = Some initialPos, isGalaxyA = Some isA,
           rotation_y = 0, opacity = 0.8\<rparr>)"

definition generate_p2b ::
  "int \<Rightarrow> (js_string \<Rightarrow> real \<times> real \<times> real) \<Rightarrow> (vec3 \<Rightarrow> real \<Rightarrow> real \<Rightarrow> real \<Rightarrow> vec3) \<Rightarrow> rng
     \<Rightarrow> GalaxyParams \<Rightarrow> error + Points" where
  "generate_p2b limit mkColor offsetHSL rnd params =
     (let colorInside = fin3 (mkColor (insideColor params));
          colorOutside = fin3 (mkColor (outsideColor params))
      in if type params = SUPERNOVA then Inr (generate_supernova_p2b rnd)
         else if type params = QUASAR then
           Inr (generate_quasar (0.5, 1.2, 8.0, 0.15, 8) 200000 0.8 colorInside colorOutside rnd)
         else if type params = COLLISION then
           Inr (generate_collision_p2b params colorInside colorOutside offsetHSL rnd)
         else generate_standard limit (0.75, 0.9, 0.4, 0.1) 0.6 params
                colorInside colorOutside rnd)"

section \<open>The frame callback\<close>

text \<open>
  \<^verbatim>\<open>animate\<close> runs once per frame with the elapsed time of the clock and the current
  \<^verbatim>\<open>params\<close>; modelled is its block on \<^verbatim>\<open>sceneRef.current.stars\<close>. The loops run
  \<^verbatim>\<open>for (let i = 0; i < positions.length / 3; i++)\<close>. A \<^verbatim>\<open>TypeError\<close> ends the callback:
  the result is then the error, and what the callback had written before is not kept.
  The elapsed time of the clock is a finite double.
\<close>

definition particle_count :: "jsnum list \<Rightarrow> nat" where
  "particle_count positions = (length positions + 2) div 3"

subsection \<open>Revision \<^verbatim>\<open>part_001\<close>\<close>

fun supernova_step_p1 ::
  "jsnum list \<Rightarrow> nat \<Rightarrow> jsnum list \<times> jsnum list \<Rightarrow> jsnum list \<times> jsnum list" where
  "supernova_step_p1 vels i (positions, colors) =
     (let i3 = i * 3;
          positions = positions[i3 := aget positions i3 + aget vels i3 * Fin 0.04];
          positions = positions[i3 + 1 := aget positions (i3 + 1) + aget vels (i3 + 1) * Fin 0.04];
          positions = positions[i3 + 2 := aget positions (i3 + 2) + aget vels (i3 + 2) * Fin 0.04];
          dist = Math_sqrt (Math_pow (aget positions i3) 2 + Math_pow (aget positions (i3 + 1)) 2
                            + Math_pow (aget positions (i3 + 2)) 2);
          heat = Math_max (Fin 0) (Fin 1 - dist / Fin 18);
          colors = colors[i3 := Fin 1.0, i3 + 1 := Math_pow heat 1.2, i3 + 2 := Math_pow heat 2.5]
      in (if js_gt dist (Fin 25) then positions[i3 := Fin 0, i3 + 1 := Fin 0, i3 + 2 := Fin 0]
          else positions,
          colors))"

fun quasar_step_p1 :: "real \<Rightarrow> nat \<Rightarrow> jsnum list \<Rightarrow> jsnum list" where
  "quasar_step_p1 elapsedTime i positions =
     (let i3 = i * 3;
          x = aget positions i3;
          z = aget positions (i3 + 2);
          r = Math_sqrt (x * x + z * z);
          angle = Fin 0.02 * (Fin 5 / (r + Fin 0.5));
          positions = positions[i3 := x * Math_cos angle - z * Math_sin angle];
          positions = positions[i3 + 2 := x * Math_sin angle + z * Math_cos angle]
      in positions[i3 + 1 := aget positions (i3 + 1)
                                + Math_sin (Fin (elapsedTime * 2) + r) * Fin 0.002])"

definition animate_p1 :: "real \<Rightarrow> GalaxyParams \<Rightarrow> Points option \<Rightarrow> error + Points option" where
  "animate_p1 elapsedTime currentParams stars =
     (case stars of
        None \<Rightarrow> Inr None
      | Some s \<Rightarrow>
          if type currentParams = SUPERNOVA then
            (case velocities s of
               None \<Rightarrow> if particle_count (position s) = 0 then Inr (Some s) else Inl TypeError
             | Some vels \<Rightarrow>
                 (case for_loop (particle_count (position s)) (supernova_step_p1 vels)
                         (position s, color s) of
                    (positions, colors) \<Rightarrow> Inr (Some (s\<lparr>position := positions, color := colors\<rparr>))))
          else if type currentParams = QUASAR then
            Inr (Some (s\<lparr>position :=
              for_loop (particle_count (position s)) (quasar_step_p1 elapsedTime) (position s)\<rparr>))
          else
            (let rotationSpeed =
               (if type currentParams = ELLIPTICAL \<or> type currentParams = LENTICULAR
                then 0.02 else 0.05)
             in Inr (Some (s\<lparr>rotation_y := elapsedTime * rotationSpeed\<rparr>))))"

subsection \<open>First revision of \<^verbatim>\<open>part_002\<close>\<close>

definition animate_p2a :: "real \<Rightarrow> Points option \<Rightarrow> Points option" where
  "animate_p2a elapsedTime stars =
     (case stars of None \<Rightarrow> None | Some s \<Rightarrow> Some (s\<lparr>rotation_y := elapsedTime * 0.05\<rparr>))"

subsection \<open>Second revision of \<^verbatim>\<open>part_002\<close>\<close>

text \<open>
  The periodic supernova, with the rounding of every operation: the remainder
  \<^verbatim>\<open>elapsedTime % duration\<close> of two doubles is exact; the quotient, the products and
  the differences are rounded to double (\<open>rd64\<close>, \<open>to_double\<close>), the literals \<^verbatim>\<open>0.01\<close> and
  \<^verbatim>\<open>1.1\<close> denote the nearest doubles (the other literals are doubles), and a store into
  \<^verbatim>\<open>positions\<close> or \<^verbatim>\<open>colors\<close> rounds the double to single precision (\<open>to_single\<close>).
  \<^verbatim>\<open>Math.pow(heat, 2)\<close> is taken to be the correctly rounded square.
\<close>

definition progress_of :: "real \<Rightarrow> real" where
  "progress_of elapsedTime = (let duration = 10 in rd64 (fmod elapsedTime duration / duration))"

fun supernova_step_p2b ::
  "jsnum list \<Rightarrow> real \<Rightarrow> nat \<Rightarrow> jsnum list \<times> jsnum list \<Rightarrow> jsnum list \<times> jsnum list" where
  "supernova_step_p2b vels progress i (positions, colors) =
     (let i3 = i * 3;
          speedFactor = rd64 (progress * 15);
          positions = positions[i3 := to_single (to_double (aget vels i3 * Fin speedFactor)),
                                i3 + 1 := to_single (to_double (aget vels (i3 + 1) * Fin speedFactor)),
                                i3 + 2 := to_single (to_double (aget vels (i3 + 2) * Fin speedFactor))];
          heat = max 0 (rd64 (1 - rd64 (progress * 1.5)))
      in (positions,
          colors[i3 := Fin 1.0, i3 + 1 := to_single (Fin heat),
                 i3 + 2 := to_single (to_double (Math_pow (Fin heat) 2))]))"

fun quasar_step_p2b :: "real \<Rightarrow> nat \<Rightarrow> jsnum list \<Rightarrow> jsnum list" where
  "quasar_step_p2b elapsedTime i positions =
     (let i3 = i * 3;
          x = aget positions i3;
          z = aget positions (i3 + 2);
          r = Math_sqrt (x * x + z * z);
          angle = Fin 0.04 * (Fin 4 / (r + Fin 0.3));
          positions = positions[i3 := x * Math_cos angle - z * Math_sin angle];
          positions = positions[i3 + 2 := x * Math_sin angle + z * Math_cos angle]
      in positions[i3 + 1 := Math_sin (Fin (elapsedTime * 4) + r * Fin 2) * Fin 0.01])"

text \<open>The separation of the two centres: \<^verbatim>\<open>dist = 8 * Math.cos(elapsedTime * 0.4)\<close>.\<close>

definition collision_dist :: "real \<Rightarrow> real" where
  "collision_dist elapsedTime = (let cycleTime = elapsedTime * 0.4 in 8 * cos cycleTime)"

fun collision_step_p2b ::
  "real \<Rightarrow> jsnum list \<Rightarrow> nat list \<Rightarrow> nat \<Rightarrow> jsnum list \<Rightarrow> jsnum list" where
  "collision_step_p2b elapsedTime initialPos isA i positions =
     (let dist = collision_dist elapsedTime;
          centerA = (dist, 0 :: real, 0 :: real);
          centerB = (- dist, 0 :: real, 0 :: real);
          i3 = i * 3;
          targetCenter = (if truthy_at isA i then centerA else centerB);
          rx = aget initialPos i3;
          rz = aget initialPos (i3 + 2);
          angle = elapsedTime * 0.5;
          rotX = rx * Fin (cos angle) - rz * Fin (sin angle);
          rotZ = rx * Fin (sin angle) + rz * Fin (cos angle);
          pull = max 0 (1 - \<bar>dist\<bar> / 5) * 2;
          driftX = (if truthy_at isA i then - pull else pull)
      in positions[i3 := rotX + Fin (fst targetCenter) + Fin driftX,
                   i3 + 1 := aget initialPos (i3 + 1) + Math_sin (Fin elapsedTime + rx) * Fin 0.2,
                   i3 + 2 := rotZ + Fin (snd (snd targetCenter))])"

definition animate_p2b :: "real \<Rightarrow> GalaxyParams \<Rightarrow> Points option \<Rightarrow> error + Points option" where
  "animate_p2b elapsedTime currentParams stars =
     (case stars of
        None \<Rightarrow> Inr None
      | Some s \<Rightarrow>
          if type currentParams = SUPERNOVA then
            (let progress = progress_of elapsedTime;
                 positions = (if progress < rd64 0.01 then zeros (length (position s))
                              else position s);
                 op = max 0 (rd64 (1 - rd64 (progress * rd64 1.1)))
             in case velocities s of
                  None \<Rightarrow>
                    if particle_count positions = 0
                    then Inr (Some (s\<lparr>position := positions, opacity := op\<rparr>))
                    else Inl TypeError
                | Some vels \<Rightarrow>
                    (case for_loop (particle_count positions) (supernova_step_p2b vels progress)
                            (positions, color s) of
                       (positions, colors) \<Rightarrow>
                         Inr (Some (s\<lparr>position := positions, color := colors, opacity := op\<rparr>))))
          else if type currentParams = QUASAR then
            Inr (Some (s\<lparr>position :=
              for_loop (particle_count (position s)) (quasar_step_p2b elapsedTime) (position s)\<rparr>))
          else if type currentParams = COLLISION then
            (if particle_count (position s) = 0 then Inr (Some s)
             else case (initialPositions s, isGalaxyA s) of
                    (Some initialPos, Some isA) \<Rightarrow>
                      Inr (Some (s\<lparr>position :=
                        for_loop (particle_count (position s))
                          (collision_step_p2b elapsedTime initialPos isA) (position s)\<rparr>))
                  | _ \<Rightarrow> Inl TypeError)
          else
            (let rotationSpeed =
               (if type currentParams = ELLIPTICAL \<or> type currentParams = LENTICULAR
                then 0.02 else 0.05)
             in Inr (Some (s\<lparr>rotation_y := elapsedTime * rotationSpeed\<rparr>))))"

section \<open>Notions used in the statements\<close>

subsection \<open>Finite buffers and particles\<close>


definition fin_vec :: "vec3 \<Rightarrow> bool" where
  "fin_vec v = (case v of (a, b, c) \<Rightarrow> is_fin a \<and> is_fin b \<and> is_fin c)"

definition get3 :: "jsnum list \<Rightarrow> nat \<Rightarrow> vec3" where
  "get3 xs i = (xs ! (i * 3), xs ! (i * 3 + 1), xs ! (i * 3 + 2))"

definition aget3 :: "jsnum list \<Rightarrow> nat \<Rightarrow> vec3" where
  "aget3 xs i = (aget xs (i * 3), aget xs (i * 3 + 1), aget xs (i * 3 + 2))"

text \<open>\<^verbatim>\<open>Math.random()\<close> returns a number in \<open>[0, 1)\<close>.\<close>

definition valid_rng :: "rng \<Rightarrow> bool" where
  "valid_rng rnd = (\<forall>k. 0 \<le> rnd k \<and> rnd k < 1)"

text \<open>The library's \<^verbatim>\<open>offsetHSL\<close> is assumed to map finite colours to finite colours.\<close>

definition preserves_finite :: "(vec3 \<Rightarrow> real \<Rightarrow> real \<Rightarrow> real \<Rightarrow> vec3) \<Rightarrow> bool" where
  "preserves_finite offsetHSL = (\<forall>v h s l. fin_vec v \<longrightarrow> fin_vec (offsetHSL v h s l))"

named_theorems fin_intros

text \<open>
  A finite number of magnitude at most \<open>b\<close>, and a triple of such numbers. A
  configuration is moderate when the values that the standard galaxy and the collision of
  \<^verbatim>\<open>part_001\<close> compute from it stay in range: the positions, of magnitude at most
  \<open>\<bar>radius\<bar> \<cdot> (1 + \<bar>randomness\<bar>)\<close> up to the constants of the scene, in that of a
  single; the angle \<^verbatim>\<open>radius * params.spin\<close> and \<^verbatim>\<open>params.randomness\<close> in that of a
  double.
\<close>

definition bounded :: "real \<Rightarrow> jsnum \<Rightarrow> bool" where
  "bounded b a = (case a of Fin x \<Rightarrow> \<bar>x\<bar> \<le> b | _ \<Rightarrow> False)"


definition moderate :: "GalaxyParams \<Rightarrow> bool" where
  "moderate params =
     (\<bar>radius params\<bar> * (1 + \<bar>randomness params\<bar>) < 2 ^ 127
      \<and> \<bar>radius params * spin params\<bar> < 2 ^ 1023
      \<and> \<bar>randomness params\<bar> < 2 ^ 1023)"

subsection \<open>What the generators and the steps do to one particle\<close>

text \<open>
  The sampled radius of the standard galaxy for the result \<open>u\<close> of \<^verbatim>\<open>Math.random()\<close>,
  and the colour mixed from it, as \<open>standard_body\<close> computes them.
\<close>

definition std_rad :: "GalaxyParams \<Rightarrow> real \<Rightarrow> jsnum" where
  "std_rad params u = Math_pow (Fin u) 1.5 * Fin (radius params)"

definition std_mix :: "GalaxyParams \<Rightarrow> vec3 \<Rightarrow> vec3 \<Rightarrow> real \<Rightarrow> vec3" where
  "std_mix params ci co u = lerp ci co (std_rad params u / Fin (radius params))"

text \<open>
  The number of results of \<^verbatim>\<open>Math.random()\<close> that the standard loop has used before
  pass \<open>i\<close>: pass \<open>i\<close> samples its radius from the result of that index, places star \<open>i\<close>
  with it (\<open>standard_place\<close>) and mixes the colour of star \<open>i\<close> from it.
\<close>

definition draws_before ::
  "real \<times> real \<times> real \<times> real \<Rightarrow> GalaxyParams \<Rightarrow> rng \<Rightarrow> nat \<Rightarrow> nat" where
  "draws_before cst params rnd i =
     for_loop i (\<lambda>j k. fst (standard_place cst params rnd j k (std_rad params (rnd k)))) 0"

text \<open>The radius that pass \<open>i\<close> samples: \<^verbatim>\<open>Math.pow(Math.random(), 1.5) * params.radius\<close>.\<close>

definition sampled_radius ::
  "real \<times> real \<times> real \<times> real \<Rightarrow> GalaxyParams \<Rightarrow> rng \<Rightarrow> nat \<Rightarrow> real" where
  "sampled_radius cst params rnd i = rnd (draws_before cst params rnd i) powr 1.5 * radius params"



text \<open>The lengths of the arrays of \<^verbatim>\<open>stars\<close>, by type, in the two revisions.\<close>

definition stars_length_p1 :: "GalaxyParams \<Rightarrow> nat" where
  "stars_length_p1 params =
     (if type params = SUPERNOVA then 3 * 100000
      else if type params = QUASAR then 3 * 150000
      else 3 * nat (starsCount params))"

definition stars_length_p2b :: "GalaxyParams \<Rightarrow> nat" where
  "stars_length_p2b params =
     (if type params = SUPERNOVA then 3 * 150000
      else if type params = QUASAR then 3 * 200000
      else if type params = COLLISION then 3 * 150000
      else 3 * nat (starsCount params))"

text \<open>
  What one pass of the quasar step makes of the particle \<open>(x, y, z)\<close>, in the two
  revisions (\<open>quasar_step_p1\<close>, \<open>quasar_step_p2b\<close>), and the planar radius of particle
  \<open>i\<close>.
\<close>

definition quasar_move_p1 :: "real \<Rightarrow> vec3 \<Rightarrow> vec3" where
  "quasar_move_p1 elapsedTime p =
     (case p of (x, y, z) \<Rightarrow>
        let r = Math_sqrt (x * x + z * z);
            angle = Fin 0.02 * (Fin 5 / (r + Fin 0.5))
        in (x * Math_cos angle - z * Math_sin angle,
            y + Math_sin (Fin (elapsedTime * 2) + r) * Fin 0.002,
            x * Math_sin angle + z * Math_cos angle))"

definition quasar_move_p2b :: "real \<Rightarrow> vec3 \<Rightarrow> vec3" where
  "quasar_move_p2b elapsedTime p =
     (case p of (x, y, z) \<Rightarrow>
        let r = Math_sqrt (x * x + z * z);
            angle = Fin 0.04 * (Fin 4 / (r + Fin 0.3))
        in (x * Math_cos angle - z * Math_sin angle,
            Math_sin (Fin (elapsedTime * 4) + r * Fin 2) * Fin 0.01,
            x * Math_sin angle + z * Math_cos angle))"

definition planar_radius :: "jsnum list \<Rightarrow> nat \<Rightarrow> jsnum" where
  "planar_radius positions i =
     Math_sqrt (aget positions (i * 3) * aget positions (i * 3)
                + aget positions (i * 3 + 2) * aget positions (i * 3 + 2))"

text \<open>
  What the collision step of the second revision of \<^verbatim>\<open>part_002\<close> writes for particle
  \<open>i\<close> (\<open>collision_step_p2b\<close>); it reads the stored local positions and group flags,
  never the position array.
\<close>

definition collision_place :: "real \<Rightarrow> jsnum list \<Rightarrow> nat list \<Rightarrow> nat \<Rightarrow> vec3" where
  "collision_place elapsedTime initialPos isA i =
     (let dist = collision_dist elapsedTime;
          center_x = (if truthy_at isA i then dist else - dist);
          rx = aget initialPos (i * 3);
          rz = aget initialPos (i * 3 + 2);
          angle = elapsedTime * 0.5;
          pull = max 0 (1 - \<bar>dist\<bar> / 5) * 2;
          driftX = (if truthy_at isA i then - pull else pull)
      in (rx * Fin (cos angle) - rz * Fin (sin angle) + Fin center_x + Fin driftX,
          aget initialPos (i * 3 + 1) + Math_sin (Fin elapsedTime + rx) * Fin 0.2,
          rx * Fin (sin angle) + rz * Fin (cos angle) + Fin 0))"

text \<open>
  What the periodic supernova step of the second revision of \<^verbatim>\<open>part_002\<close> writes at
  index \<open>j\<close> of the position array (\<open>supernova_step_p2b\<close>), and the array of length \<open>n\<close>
  that it writes; it reads the velocities and the progress, never the position array.
\<close>

definition periodic_entry :: "jsnum list \<Rightarrow> real \<Rightarrow> nat \<Rightarrow> jsnum" where
  "periodic_entry vels progress j =
     to_single (to_double (aget vels j * Fin (rd64 (progress * 15))))"

definition periodic_positions :: "jsnum list \<Rightarrow> real \<Rightarrow> nat \<Rightarrow> jsnum list" where
  "periodic_positions vels progress n = map (periodic_entry vels progress) [0..<n]"

text \<open>
  What one pass of the continuous supernova step of \<^verbatim>\<open>part_001\<close> makes of a particle
  (\<open>supernova_step_p1\<close>): the integrated position, its distance from the origin, the
  position written (reset beyond \<open>25\<close>) and the colour written.
\<close>

definition supernova_dist_p1 :: "vec3 \<Rightarrow> jsnum" where
  "supernova_dist_p1 p =
     (case p of (x, y, z) \<Rightarrow> Math_sqrt (Math_pow x 2 + Math_pow y 2 + Math_pow z 2))"

definition supernova_advance_p1 :: "jsnum list \<Rightarrow> nat \<Rightarrow> vec3 \<Rightarrow> vec3" where
  "supernova_advance_p1 vels i p =
     (case p of (x, y, z) \<Rightarrow>
        (x + aget vels (i * 3) * Fin 0.04, y + aget vels (i * 3 + 1) * Fin 0.04,
         z + aget vels (i * 3 + 2) * Fin 0.04))"

definition supernova_move_p1 :: "jsnum list \<Rightarrow> nat \<Rightarrow> vec3 \<Rightarrow> vec3" where
  "supernova_move_p1 vels i p =
     (let q = supernova_advance_p1 vels i p
      in if js_gt (supernova_dist_p1 q) (Fin 25) then (Fin 0, Fin 0, Fin 0) else q)"

definition supernova_color_p1 :: "jsnum list \<Rightarrow> nat \<Rightarrow> vec3 \<Rightarrow> vec3" where
  "supernova_color_p1 vels i p =
     (let heat = Math_max (Fin 0)
                   (Fin 1 - supernova_dist_p1 (supernova_advance_p1 vels i p) / Fin 18)
      in (Fin 1.0, Math_pow heat 1.2, Math_pow heat 2.5))"

subsection \<open>The rotation rate as the specification words it\<close>

text \<open>
  The specification's rule for the rigid rotation: \<open>0.02\<close> rad/s for elliptical and
  lenticular galaxies, \<open>0.05\<close> rad/s otherwise. The frame callbacks are compared with it.
\<close>

definition spec_rate :: "js_string \<Rightarrow> real" where
  "spec_rate ty = (if ty = ELLIPTICAL \<or> ty = LENTICULAR then 0.02 else 0.05)"

subsection \<open>Concrete inputs\<close>

text \<open>
  The strings of code units of an ASCII string; the configuration of the specification's
  scenario with two stars, for a given type; an engine limit, a colour parser, a random
  sequence and an \<^verbatim>\<open>offsetHSL\<close> to run it with; the same configuration for a spiral of
  one star with radius \<open>0\<close> and one branch; an empty scene, and a scene of one particle at
  \<open>(3, 1, 4)\<close> with velocity \<open>(1, 0, 0)\<close>.
\<close>

definition sample_limit :: int where
  "sample_limit = 2 ^ 32 - 1"

definition ascii :: "string \<Rightarrow> js_string" where
  "ascii cs = map of_char cs"

definition sample_params :: "js_string \<Rightarrow> GalaxyParams" where
  "sample_params ty =
     \<lparr>type = ty, starsCount = 2, radius = 5, branches = 3, spin = 1, randomness = 0.2,
      randomnessPower = 3, insideColor = ascii ''#ff0000'', outsideColor = ascii ''#0000ff'',
      isEvent = None\<rparr>"

definition sample_mkColor :: "js_string \<Rightarrow> real \<times> real \<times> real" where
  "sample_mkColor s = (if s = ascii ''#ff0000'' then (1, 0, 0) else (0, 0, 1))"

definition sample_rnd :: rng where
  "sample_rnd k = 1 / 2"

definition sample_offsetHSL :: "vec3 \<Rightarrow> real \<Rightarrow> real \<Rightarrow> real \<Rightarrow> vec3" where
  "sample_offsetHSL v h s l = v"


definition no_points :: Points where
  "no_points = \<lparr>position = [], color = [], velocities = None, initialPositions = None,
                isGalaxyA = None, rotation_y = 0, opacity = 1\<rparr>"

definition one_particle :: Points where
  "one_particle =
     \<lparr>position = [Fin 3, Fin 1, Fin 4], color = [Fin 1, Fin 1, Fin 1],
      velocities = Some [Fin 1, Fin 0, Fin 0], initialPositions = Some [Fin 1, Fin 0, Fin 0],
      isGalaxyA = Some [1], rotation_y = 0, opacity = 0.8\<rparr>"


definition tie_particle :: Points where
  "tie_particle =
     \<lparr>position = [Fin 0, Fin 0, Fin 0], color = [Fin 1, Fin 1, Fin 1],
      velocities = Some [Fin (11376765 / 2 ^ 22), Fin 0, Fin 0], initialPositions = None,
      isGalaxyA = None, rotation_y = 0, opacity = 0.8\<rparr>"

definition tie_time :: real where
  "tie_time = 5095514895165835 / 2 ^ 50"

definition tie_time_later :: real where
  "tie_time_later = 4088628490898019 / 2 ^ 48"

section \<open>Auxiliary facts\<close>

lemma for_loop_0: "for_loop 0 body s = s"
  by (simp add: for_loop_def)

lemma for_loop_Suc: "for_loop (Suc n) body s = body n (for_loop n body s)"
  by (simp add: for_loop_def)

lemma for_loop_invariant:
  assumes "P s" and "\<And>i s. i < n \<Longrightarrow> P s \<Longrightarrow> P (body i s)"
  shows "P (for_loop n body s)"
  using assms(2)
proof (induction n)
  case 0
  show ?case using assms(1) by (simp add: for_loop_0)
next
  case (Suc n)
  have "P (for_loop n body s)" using Suc by simp
  then show ?case using Suc.prems by (simp add: for_loop_Suc)
qed

lemma length_put3: "length (put3 xs i v) = length xs"
  by (cases v) (simp add: put3_def)

lemma galaxy_not_event:
  "ty \<in> galaxy_types \<Longrightarrow> ty \<noteq> SUPERNOVA \<and> ty \<noteq> QUASAR \<and> ty \<noteq> COLLISION"
  by (auto simp: galaxy_types_def SPIRAL_def BARRED_SPIRAL_def ELLIPTICAL_def IRREGULAR_def
      LENTICULAR_def SUPERNOVA_def QUASAR_def COLLISION_def)

lemma for_loop_invariant_idx:
  assumes "P 0 s" and "\<And>i s. i < n \<Longrightarrow> P i s \<Longrightarrow> P (Suc i) (body i s)"
  shows "P n (for_loop n body s)"
  using assms(2)
proof (induction n)
  case 0
  show ?case using assms(1) by (simp add: for_loop_0)
next
  case (Suc n)
  have "P n (for_loop n body s)" using Suc by simp
  then show ?case using Suc.prems by (simp add: for_loop_Suc)
qed




lemma get3_put3_same: "i * 3 + 2 < length xs \<Longrightarrow> get3 (put3 xs i v) i = v"
  by (cases v) (simp add: get3_def put3_def)

lemma get3_put3_other: "i \<noteq> j \<Longrightarrow> get3 (put3 xs i v) j = get3 xs j"
proof -
  assume "i \<noteq> j"
  then have "i * 3 \<noteq> j * 3" "i * 3 \<noteq> j * 3 + 1" "i * 3 \<noteq> j * 3 + 2"
    "i * 3 + 1 \<noteq> j * 3" "i * 3 + 1 \<noteq> j * 3 + 1" "i * 3 + 1 \<noteq> j * 3 + 2"
    "i * 3 + 2 \<noteq> j * 3" "i * 3 + 2 \<noteq> j * 3 + 1" "i * 3 + 2 \<noteq> j * 3 + 2"
    by presburger+
  then show ?thesis
    by (cases v) (simp add: get3_def put3_def)
qed

lemma length_zeros: "length (zeros n) = n"
  by (simp add: zeros_def)

lemma Float32Array_ok: "allocatable limit n \<Longrightarrow> Float32Array limit n = Inr (zeros (nat n))"
  by (simp add: Float32Array_def zeros_def)

lemma Float32Array_refused: "\<not> allocatable limit n \<Longrightarrow> Float32Array limit n = Inl RangeError"
  by (simp add: Float32Array_def)

lemma allocatable_nonneg: "allocatable limit (n * 3) \<Longrightarrow> 0 \<le> n"
  by (simp add: allocatable_def)

lemma standard_body_shape:
  "standard_body cst params ci co rnd i (k, ps, cs)
     = (fst (standard_place cst params rnd i k (std_rad params (rnd k))),
        put3 ps i (single3 (snd (standard_place cst params rnd i k (std_rad params (rnd k))))),
        put3 cs i (std_mix params ci co (rnd k)))"
  by (simp add: Let_def std_mix_def std_rad_def)

lemma valid_rngD: "valid_rng rnd \<Longrightarrow> 0 \<le> rnd k \<and> rnd k < 1 \<and> rnd k \<le> 1"
  by (simp add: valid_rng_def less_imp_le)

lemma is_fin_iff: "is_fin a \<longleftrightarrow> (\<exists>x. a = Fin x)"
  by (cases a) simp_all


lemma is_fin_plus [fin_intros]: "is_fin a \<Longrightarrow> is_fin b \<Longrightarrow> is_fin (a + b)"
  by (auto simp: is_fin_iff)

lemma is_fin_minus [fin_intros]: "is_fin a \<Longrightarrow> is_fin b \<Longrightarrow> is_fin (a - b)"
  by (auto simp: is_fin_iff minus_jsnum_def)


lemma is_fin_divide [fin_intros]: "is_fin a \<Longrightarrow> c \<noteq> 0 \<Longrightarrow> is_fin (a / Fin c)"
  by (auto simp: is_fin_iff)



lemma is_fin_acos [fin_intros]: "- 1 \<le> x \<Longrightarrow> x \<le> 1 \<Longrightarrow> is_fin (Math_acos (Fin x))"
  by simp

lemma is_fin_rem [fin_intros]: "b \<noteq> 0 \<Longrightarrow> is_fin (js_rem a b)"
  by (simp add: js_rem_def)

lemma Math_pow_nonneg: "0 \<le> u \<Longrightarrow> 0 < e \<Longrightarrow> Math_pow (Fin u) e = Fin (u powr e)"
  by (simp add: Math_pow_def)

lemma is_fin_pow [fin_intros]: "0 \<le> u \<Longrightarrow> 0 \<le> e \<Longrightarrow> is_fin (Math_pow (Fin u) e)"
  by (simp add: Math_pow_def)

lemma minus_Fin: "Fin a - Fin b = Fin (a - b)"
  by (simp add: minus_jsnum_def)

lemma std_rad_Fin: "0 \<le> u \<Longrightarrow> std_rad params u = Fin (u powr 1.5 * radius params)"
  by (simp add: std_rad_def Math_pow_nonneg)

lemma acos_arg: "0 \<le> u \<Longrightarrow> u < 1 \<Longrightarrow> - 1 \<le> u * 2 - 1 \<and> u * 2 - 1 \<le> (1::real)"
  by simp



declare standard_body.simps [simp del]

lemma standard_body_lengths:
  assumes "standard_body cst params ci co rnd i (k, ps, cs) = (k', ps', cs')"
  shows "length ps' = length ps \<and> length cs' = length cs"
  using assms by (auto simp: standard_body_shape length_put3)

lemma standard_loop_lengths:
  "case for_loop n (standard_body cst params ci co rnd) (k0, ps0, cs0) of
     (k, ps, cs) \<Rightarrow> length ps = length ps0 \<and> length cs = length cs0"
proof (rule for_loop_invariant)
  show "case (k0, ps0, cs0) of (k, ps, cs) \<Rightarrow> length ps = length ps0 \<and> length cs = length cs0"
    by simp
next
  fix i and s :: "nat \<times> jsnum list \<times> jsnum list"
  assume "case s of (k, ps, cs) \<Rightarrow> length ps = length ps0 \<and> length cs = length cs0"
  then show "case standard_body cst params ci co rnd i s of
               (k, ps, cs) \<Rightarrow> length ps = length ps0 \<and> length cs = length cs0"
    by (cases s) (simp add: standard_body_shape length_put3)
qed

lemma lerp1_Fin: "lerp1 (Fin a) (Fin b) (Fin f) = Fin (a + (b - a) * f)"
  by (simp add: lerp1_def minus_Fin)


lemma std_mix_Fin:
  assumes "radius params \<noteq> 0" "0 \<le> u"
  shows "std_mix params (fin3 (a1, a2, a3)) (fin3 (b1, b2, b3)) u =
           (Fin (a1 + (b1 - a1) * (u powr 1.5 * radius params / radius params)),
            Fin (a2 + (b2 - a2) * (u powr 1.5 * radius params / radius params)),
            Fin (a3 + (b3 - a3) * (u powr 1.5 * radius params / radius params)))"
  using assms by (simp add: std_mix_def std_rad_Fin lerp_def fin3_def lerp1_Fin)



lemma generate_standard_Inr:
  assumes "allocatable limit (starsCount params * 3)"
  shows "\<exists>k ps cs.
           for_loop (nat (starsCount params)) (standard_body cst params ci co rnd)
             (0, zeros (nat (starsCount params) * 3), zeros (nat (starsCount params) * 3))
             = (k, ps, cs)
           \<and> generate_standard limit cst op params ci co rnd
               = Inr \<lparr>position = ps, color = cs, velocities = None, initialPositions = None,
                      isGalaxyA = None, rotation_y = 0, opacity = op\<rparr>"
proof -
  have n: "nat (starsCount params * 3) = nat (starsCount params) * 3"
    using allocatable_nonneg [OF assms] by (simp add: nat_mult_distrib)
  obtain k ps cs where
    "for_loop (nat (starsCount params)) (standard_body cst params ci co rnd)
       (0, zeros (nat (starsCount params) * 3), zeros (nat (starsCount params) * 3)) = (k, ps, cs)"
    using prod_cases3 by blast
  then show ?thesis
    using assms by (simp add: generate_standard_def Float32Array_ok n)
qed

declare supernova_body_p1.simps [simp del] supernova_body_p2b.simps [simp del]
  quasar_body.simps [simp del] collision_body_p1.simps [simp del]
  collision_body_p2b.simps [simp del]






lemma fin_vec_vadd: "fin_vec u \<Longrightarrow> fin_vec v \<Longrightarrow> fin_vec (vadd u v)"
  by (cases u; cases v) (simp add: fin_vec_def vadd_def is_fin_plus)



lemma fin_vec_if: "fin_vec x \<Longrightarrow> fin_vec y \<Longrightarrow> fin_vec (if c then x else y)"
  by simp

lemma supernova_p1_lengths:
  "case for_loop n (supernova_body_p1 rnd) (k0, ps0, cs0, vs0) of
     (k, ps, cs, vs) \<Rightarrow> length ps = length ps0 \<and> length cs = length cs0"
proof (rule for_loop_invariant)
  show "case (k0, ps0, cs0, vs0) of
          (k, ps, cs, vs) \<Rightarrow> length ps = length ps0 \<and> length cs = length cs0"
    by simp
next
  fix i and s :: "nat \<times> jsnum list \<times> jsnum list \<times> jsnum list"
  assume "case s of (k, ps, cs, vs) \<Rightarrow> length ps = length ps0 \<and> length cs = length cs0"
  then show "case supernova_body_p1 rnd i s of
               (k, ps, cs, vs) \<Rightarrow> length ps = length ps0 \<and> length cs = length cs0"
    by (cases s) (simp add: supernova_body_p1.simps Let_def length_put3)
qed

lemma supernova_p2b_lengths:
  "case for_loop n (supernova_body_p2b rnd) (k0, cs0, vs0) of
     (k, cs, vs) \<Rightarrow> length cs = length cs0"
proof (rule for_loop_invariant)
  show "case (k0, cs0, vs0) of (k, cs, vs) \<Rightarrow> length cs = length cs0"
    by simp
next
  fix i and s :: "nat \<times> jsnum list \<times> jsnum list"
  assume "case s of (k, cs, vs) \<Rightarrow> length cs = length cs0"
  then show "case supernova_body_p2b rnd i s of (k, cs, vs) \<Rightarrow> length cs = length cs0"
    by (cases s) (simp add: supernova_body_p2b.simps Let_def length_put3)
qed

lemma quasar_lengths:
  "case for_loop n (quasar_body cst ci co rnd) (k0, ps0, cs0) of
     (k, ps, cs) \<Rightarrow> length ps = length ps0 \<and> length cs = length cs0"
proof (rule for_loop_invariant)
  show "case (k0, ps0, cs0) of (k, ps, cs) \<Rightarrow> length ps = length ps0 \<and> length cs = length cs0"
    by simp
next
  fix i and s :: "nat \<times> jsnum list \<times> jsnum list"
  assume "case s of (k, ps, cs) \<Rightarrow> length ps = length ps0 \<and> length cs = length cs0"
  then show "case quasar_body cst ci co rnd i s of
               (k, ps, cs) \<Rightarrow> length ps = length ps0 \<and> length cs = length cs0"
    by (cases s; cases cst) (simp add: quasar_body.simps Let_def length_put3)
qed

lemma collision_p1_lengths:
  "case for_loop n (collision_body_p1 params ci co rnd) (k0, ps0, cs0) of
     (k, ps, cs) \<Rightarrow> length ps = length ps0 \<and> length cs = length cs0"
proof (rule for_loop_invariant)
  show "case (k0, ps0, cs0) of (k, ps, cs) \<Rightarrow> length ps = length ps0 \<and> length cs = length cs0"
    by simp
next
  fix i and s :: "nat \<times> jsnum list \<times> jsnum list"
  assume "case s of (k, ps, cs) \<Rightarrow> length ps = length ps0 \<and> length cs = length cs0"
  then show "case collision_body_p1 params ci co rnd i s of
               (k, ps, cs) \<Rightarrow> length ps = length ps0 \<and> length cs = length cs0"
    by (cases s) (simp add: collision_body_p1.simps Let_def length_put3)
qed

lemma collision_p2b_lengths:
  "case for_loop n (collision_body_p2b params ci co offsetHSL rnd) (k0, cs0, ip0, isA0) of
     (k, cs, ip, isA) \<Rightarrow> length cs = length cs0"
proof (rule for_loop_invariant)
  show "case (k0, cs0, ip0, isA0) of (k, cs, ip, isA) \<Rightarrow> length cs = length cs0"
    by simp
next
  fix i and s :: "nat \<times> jsnum list \<times> jsnum list \<times> nat list"
  assume "case s of (k, cs, ip, isA) \<Rightarrow> length cs = length cs0"
  then show "case collision_body_p2b params ci co offsetHSL rnd i s of
               (k, cs, ip, isA) \<Rightarrow> length cs = length cs0"
    by (cases s) (simp add: collision_body_p2b.simps Let_def length_put3)
qed

lemma generate_supernova_p1_lengths:
  "length (position (generate_supernova_p1 rnd)) = 300000
   \<and> length (color (generate_supernova_p1 rnd)) = 300000"
  using supernova_p1_lengths [where n = 100000 and rnd = rnd and ?k0.0 = 0 and ?ps0.0 = "zeros 300000"
      and ?cs0.0 = "zeros 300000" and ?vs0.0 = "zeros 300000"]
  by (simp add: generate_supernova_p1_def length_zeros split: prod.splits)

lemma generate_supernova_p2b_lengths:
  "length (position (generate_supernova_p2b rnd)) = 450000
   \<and> length (color (generate_supernova_p2b rnd)) = 450000"
  using supernova_p2b_lengths [where n = 150000 and rnd = rnd and ?k0.0 = 0 and ?cs0.0 = "zeros 450000"
      and ?vs0.0 = "zeros 450000"]
  by (simp add: generate_supernova_p2b_def length_zeros split: prod.splits)

lemma generate_quasar_lengths:
  "length (position (generate_quasar cst count op ci co rnd)) = count * 3
   \<and> length (color (generate_quasar cst count op ci co rnd)) = count * 3"
  using quasar_lengths [where n = count and cst = cst and ci = ci and co = co and rnd = rnd and ?k0.0 = 0
      and ?ps0.0 = "zeros (count * 3)" and ?cs0.0 = "zeros (count * 3)"]
  by (simp add: generate_quasar_def length_zeros split: prod.splits)

lemma generate_collision_p2b_lengths:
  "length (position (generate_collision_p2b params ci co offsetHSL rnd)) = 450000
   \<and> length (color (generate_collision_p2b params ci co offsetHSL rnd)) = 450000"
  using collision_p2b_lengths [where n = 150000 and params = params and ci = ci and co = co
      and offsetHSL = offsetHSL and rnd = rnd and ?k0.0 = 0 and ?cs0.0 = "zeros 450000"
      and ?ip0.0 = "zeros 450000" and ?isA0.0 = "replicate 150000 0"]
  by (simp add: generate_collision_p2b_def length_zeros split: prod.splits)

lemma generate_collision_p1_Inr:
  assumes "allocatable limit (starsCount params * 3)"
  shows "\<exists>k ps cs.
           for_loop (nat (starsCount params)) (collision_body_p1 params ci co rnd)
             (0, zeros (nat (starsCount params) * 3), zeros (nat (starsCount params) * 3))
             = (k, ps, cs)
           \<and> generate_collision_p1 limit params ci co rnd
               = Inr \<lparr>position = ps, color = cs, velocities = None, initialPositions = None,
                      isGalaxyA = None, rotation_y = 0, opacity = 0.8\<rparr>"
proof -
  have n: "nat (starsCount params * 3) = nat (starsCount params) * 3"
    using allocatable_nonneg [OF assms] by (simp add: nat_mult_distrib)
  obtain k ps cs where
    "for_loop (nat (starsCount params)) (collision_body_p1 params ci co rnd)
       (0, zeros (nat (starsCount params) * 3), zeros (nat (starsCount params) * 3)) = (k, ps, cs)"
    using prod_cases3 by blast
  then show ?thesis
    using assms by (simp add: generate_collision_p1_def Float32Array_ok n)
qed

lemma generate_collision_p1_lengths:
  assumes "allocatable limit (starsCount params * 3)"
  shows "\<exists>ps. generate_collision_p1 limit params ci co rnd = Inr ps
           \<and> length (position ps) = 3 * nat (starsCount params)
           \<and> length (color ps) = 3 * nat (starsCount params)"
  using generate_collision_p1_Inr [OF assms, where ci = ci and co = co and rnd = rnd]
    collision_p1_lengths [where n = "nat (starsCount params)" and params = params and ci = ci
      and co = co and rnd = rnd and ?k0.0 = 0 and ?ps0.0 = "zeros (nat (starsCount params) * 3)"
      and ?cs0.0 = "zeros (nat (starsCount params) * 3)"]
  by (auto simp: length_zeros)

lemma generate_standard_lengths:
  assumes "allocatable limit (starsCount params * 3)"
  shows "\<exists>ps. generate_standard limit cst op params ci co rnd = Inr ps
           \<and> length (position ps) = 3 * nat (starsCount params)
           \<and> length (color ps) = 3 * nat (starsCount params)"
  using generate_standard_Inr [OF assms, where cst = cst and ci = ci and co = co and rnd = rnd and op = op]
    standard_loop_lengths [where n = "nat (starsCount params)" and cst = cst and params = params
      and ci = ci and co = co and rnd = rnd and ?k0.0 = 0
      and ?ps0.0 = "zeros (nat (starsCount params) * 3)"
      and ?cs0.0 = "zeros (nat (starsCount params) * 3)"]
  by (auto simp: length_zeros)

lemma generate_p1_lengths:
  assumes "allocatable limit (starsCount params * 3)"
  shows "\<exists>ps. generate_p1 limit mkColor rnd params = Inr ps
           \<and> length (position ps) = stars_length_p1 params
           \<and> length (color ps) = stars_length_p1 params"
  using generate_supernova_p1_lengths [of rnd]
    generate_quasar_lengths [where count = 150000]
    generate_collision_p1_lengths [OF assms]
    generate_standard_lengths [OF assms]
  by (simp add: generate_p1_def stars_length_p1_def Let_def)

lemma generate_p2b_lengths:
  assumes "allocatable limit (starsCount params * 3)"
  shows "\<exists>ps. generate_p2b limit mkColor offsetHSL rnd params = Inr ps
           \<and> length (position ps) = stars_length_p2b params
           \<and> length (color ps) = stars_length_p2b params"
  using generate_supernova_p2b_lengths [of rnd]
    generate_quasar_lengths [where count = 200000]
    generate_collision_p2b_lengths
    generate_standard_lengths [OF assms]
  by (simp add: generate_p2b_def stars_length_p2b_def Let_def)


lemma jitter_type [simp]: "jitter (params\<lparr>type := ty\<rparr>) rnd k rad = jitter params rnd k rad"
  by (simp add: jitter_def)







lemma powr_unit: "0 \<le> u \<Longrightarrow> u < 1 \<Longrightarrow> 0 \<le> u powr 1.5 \<and> u powr 1.5 \<le> (1::real)"
  by (simp add: powr_le1)




lemma get3_eq_aget3: "i * 3 + 2 < length xs \<Longrightarrow> aget3 xs i = get3 xs i"
  by (simp add: aget3_def get3_def aget_def)

lemma aget_update_other: "j \<noteq> k \<Longrightarrow> aget (xs[j := v]) k = aget xs k"
  by (simp add: aget_def)

lemma aget3_put3_other: "i \<noteq> j \<Longrightarrow> aget3 (put3 xs i v) j = aget3 xs j"
proof -
  assume "i \<noteq> j"
  then have "i * 3 \<noteq> j * 3" "i * 3 \<noteq> j * 3 + 1" "i * 3 \<noteq> j * 3 + 2"
    "i * 3 + 1 \<noteq> j * 3" "i * 3 + 1 \<noteq> j * 3 + 1" "i * 3 + 1 \<noteq> j * 3 + 2"
    "i * 3 + 2 \<noteq> j * 3" "i * 3 + 2 \<noteq> j * 3 + 1" "i * 3 + 2 \<noteq> j * 3 + 2"
    by presburger+
  then show ?thesis
    by (cases v) (simp add: aget3_def put3_def aget_update_other)
qed

lemma aget3_put3_same: "i * 3 + 2 < length xs \<Longrightarrow> aget3 (put3 xs i v) i = v"
  by (simp add: get3_eq_aget3 length_put3 get3_put3_same)

text \<open>
  A loop whose pass \<open>i\<close> rewrites particle \<open>i\<close> from that particle's own components:
  every complete particle ends up as its pass makes it from its initial components.
\<close>

lemma particle_loop1:
  assumes "\<And>i xs. body i xs = put3 xs i (F i (aget3 xs i))"
  shows "length (for_loop n body xs0) = length xs0
       \<and> (\<forall>i. i * 3 + 2 < length xs0 \<longrightarrow>
             aget3 (for_loop n body xs0) i = (if i < n then F i (aget3 xs0 i) else aget3 xs0 i))"
proof (rule for_loop_invariant_idx
    [where P = "\<lambda>m xs. length xs = length xs0
       \<and> (\<forall>i. i * 3 + 2 < length xs0 \<longrightarrow>
             aget3 xs i = (if i < m then F i (aget3 xs0 i) else aget3 xs0 i))"])
  show "length xs0 = length xs0
       \<and> (\<forall>i. i * 3 + 2 < length xs0 \<longrightarrow>
             aget3 xs0 i = (if i < 0 then F i (aget3 xs0 i) else aget3 xs0 i))"
    by simp
next
  fix m xs
  assume inv: "length xs = length xs0
       \<and> (\<forall>i. i * 3 + 2 < length xs0 \<longrightarrow>
             aget3 xs i = (if i < m then F i (aget3 xs0 i) else aget3 xs0 i))"
  have "aget3 (body m xs) i = (if i < Suc m then F i (aget3 xs0 i) else aget3 xs0 i)"
    if c: "i * 3 + 2 < length xs0" for i
  proof (cases "i = m")
    case True
    then show ?thesis
      using inv c by (simp add: assms aget3_put3_same)
  next
    case False
    then have "i < Suc m \<longleftrightarrow> i < m"
      by auto
    then show ?thesis
      using inv c False by (simp add: assms aget3_put3_other)
  qed
  then show "length (body m xs) = length xs0
       \<and> (\<forall>i. i * 3 + 2 < length xs0 \<longrightarrow>
             aget3 (body m xs) i = (if i < Suc m then F i (aget3 xs0 i) else aget3 xs0 i))"
    using inv by (simp add: assms length_put3)
qed

lemma complete_particle_counted:
  "i * 3 + 2 < length xs \<Longrightarrow> i < particle_count xs"
  by (simp add: particle_count_def)

lemma quasar_step_p1_shape:
  "quasar_step_p1 t i xs = put3 xs i (quasar_move_p1 t (aget3 xs i))"
proof -
  have "xs[i * 3 := a, i * 3 + 2 := c, i * 3 + 1 := b] = xs[i * 3 := a, i * 3 + 1 := b, i * 3 + 2 := c]"
    for a b c
    by (simp add: list_update_swap)
  then show ?thesis
    by (simp add: quasar_move_p1_def aget3_def put3_def Let_def aget_update_other)
qed

lemma quasar_step_p2b_shape:
  "quasar_step_p2b t i xs = put3 xs i (quasar_move_p2b t (aget3 xs i))"
proof -
  have "xs[i * 3 := a, i * 3 + 2 := c, i * 3 + 1 := b] = xs[i * 3 := a, i * 3 + 1 := b, i * 3 + 2 := c]"
    for a b c
    by (simp add: list_update_swap)
  then show ?thesis
    by (simp add: quasar_move_p2b_def aget3_def put3_def Let_def)
qed

lemma rotation_algebra:
  fixes a b c s :: real
  shows "(a * c - b * s) * (a * c - b * s) + (a * s + b * c) * (a * s + b * c)
         = (a * a + b * b) * (s * s + c * c)"
  by (simp add: algebra_simps)

lemma rotation_radius:
  fixes a b th :: real
  shows "(a * cos th - b * sin th) * (a * cos th - b * sin th)
         + (a * sin th + b * cos th) * (a * sin th + b * cos th) = a * a + b * b"
proof -
  have s: "sin th * sin th + cos th * cos th = 1"
    using sin_cos_squared_add [of th] by (simp add: power2_eq_square)
  show ?thesis
    by (simp only: rotation_algebra s mult_1_right)
qed

lemma quasar_move_p1_radius:
  "\<exists>y'. quasar_move_p1 t (Fin a, y, Fin b)
          = (Fin (a * cos (0.02 * (5 / (sqrt (a * a + b * b) + 0.5)))
                  - b * sin (0.02 * (5 / (sqrt (a * a + b * b) + 0.5)))),
             y',
             Fin (a * sin (0.02 * (5 / (sqrt (a * a + b * b) + 0.5)))
                  + b * cos (0.02 * (5 / (sqrt (a * a + b * b) + 0.5)))))"
proof -
  have n: "\<not> a * a + b * b < 0"
    by (simp add: not_less)
  have "0 \<le> sqrt (a * a + b * b)"
    by simp
  then have "sqrt (a * a + b * b) + 0.5 \<noteq> 0"
    by linarith
  then show ?thesis
    using n by (simp add: quasar_move_p1_def Let_def minus_Fin)
qed

lemma quasar_move_p2b_radius:
  "\<exists>y'. quasar_move_p2b t (Fin a, y, Fin b)
          = (Fin (a * cos (0.04 * (4 / (sqrt (a * a + b * b) + 0.3)))
                  - b * sin (0.04 * (4 / (sqrt (a * a + b * b) + 0.3)))),
             y',
             Fin (a * sin (0.04 * (4 / (sqrt (a * a + b * b) + 0.3)))
                  + b * cos (0.04 * (4 / (sqrt (a * a + b * b) + 0.3)))))"
proof -
  have n: "\<not> a * a + b * b < 0"
    by (simp add: not_less)
  have "0 \<le> sqrt (a * a + b * b)"
    by simp
  then have "sqrt (a * a + b * b) + 0.3 \<noteq> 0"
    by linarith
  then show ?thesis
    using n by (simp add: quasar_move_p2b_def Let_def minus_Fin)
qed

lemma planar_radius_aget3:
  "aget3 xs i = (Fin a, y, Fin b) \<Longrightarrow> planar_radius xs i = Fin (sqrt (a * a + b * b))"
  by (simp add: planar_radius_def aget3_def not_less)

lemma SUPERNOVA_neq_QUASAR: "SUPERNOVA \<noteq> QUASAR"
  by (simp add: SUPERNOVA_def QUASAR_def)

lemma animate_p1_quasar:
  assumes "type params = QUASAR" "i * 3 + 2 < length (position s)"
  shows "\<exists>s'. animate_p1 t params (Some s) = Inr (Some s')
           \<and> length (position s') = length (position s)
           \<and> aget3 (position s') i = quasar_move_p1 t (aget3 (position s) i)"
  using particle_loop1 [where body = "quasar_step_p1 t" and F = "\<lambda>i. quasar_move_p1 t"
      and n = "particle_count (position s)" and ?xs0.0 = "position s",
      OF quasar_step_p1_shape]
    complete_particle_counted [OF assms(2)] assms SUPERNOVA_neq_QUASAR
  by (simp add: animate_p1_def)

lemma animate_p2b_quasar:
  assumes "type params = QUASAR" "i * 3 + 2 < length (position s)"
  shows "\<exists>s'. animate_p2b t params (Some s) = Inr (Some s')
           \<and> length (position s') = length (position s)
           \<and> aget3 (position s') i = quasar_move_p2b t (aget3 (position s) i)"
  using particle_loop1 [where body = "quasar_step_p2b t" and F = "\<lambda>i. quasar_move_p2b t"
      and n = "particle_count (position s)" and ?xs0.0 = "position s",
      OF quasar_step_p2b_shape]
    complete_particle_counted [OF assms(2)] assms SUPERNOVA_neq_QUASAR
  by (simp add: animate_p2b_def)

lemma collision_step_p2b_shape:
  "collision_step_p2b t ip isA i xs = put3 xs i (collision_place t ip isA i)"
  by (simp add: collision_place_def put3_def Let_def)

lemma COLLISION_neq: "COLLISION \<noteq> SUPERNOVA" "COLLISION \<noteq> QUASAR"
  by (simp_all add: COLLISION_def SUPERNOVA_def QUASAR_def)

lemma generate_collision_p2b_fields:
  "\<exists>ip isA. position (generate_collision_p2b params ci co offsetHSL rnd) = zeros (150000 * 3)
      \<and> initialPositions (generate_collision_p2b params ci co offsetHSL rnd) = Some ip
      \<and> isGalaxyA (generate_collision_p2b params ci co offsetHSL rnd) = Some isA"
  by (simp add: generate_collision_p2b_def split: prod.splits)

lemma particle_count_0: "particle_count xs = 0 \<Longrightarrow> xs = []"
proof -
  have "(n + 2) div 3 = 0 \<Longrightarrow> n = 0" for n :: nat
    by presburger
  then show "particle_count xs = 0 \<Longrightarrow> xs = []"
    unfolding particle_count_def by (metis length_0_conv)
qed

lemma animate_p2b_collision:
  assumes "type params = COLLISION" "initialPositions s = Some ip" "isGalaxyA s = Some isA"
  shows "\<exists>s'. animate_p2b t params (Some s) = Inr (Some s')
           \<and> length (position s') = length (position s)
           \<and> (\<forall>i. i * 3 + 2 < length (position s) \<longrightarrow>
                 get3 (position s') i = collision_place t ip isA i)"
proof -
  let ?n = "particle_count (position s)"
  let ?xs = "for_loop ?n (collision_step_p2b t ip isA) (position s)"
  have l: "length ?xs = length (position s)"
    and a: "\<And>i. i * 3 + 2 < length (position s) \<Longrightarrow>
              aget3 ?xs i = (if i < ?n then collision_place t ip isA i else aget3 (position s) i)"
    using particle_loop1 [where body = "collision_step_p2b t ip isA"
        and F = "\<lambda>i p. collision_place t ip isA i" and n = ?n and ?xs0.0 = "position s",
        OF collision_step_p2b_shape]
    by simp_all
  have g: "get3 ?xs i = collision_place t ip isA i" if "i * 3 + 2 < length (position s)" for i
    using a [OF that] complete_particle_counted [OF that] that l
    by (simp add: get3_eq_aget3)
  show ?thesis
  proof (cases "?n = 0")
    case True
    then have "position s = []"
      by (rule particle_count_0)
    then show ?thesis
      using True assms COLLISION_neq by (simp add: animate_p2b_def)
  next
    case False
    then show ?thesis
      using assms COLLISION_neq l g by (simp add: animate_p2b_def)
  qed
qed


lemma aget_advanced:
  "aget (xs[j := aget xs j + v]) j = aget xs j + v"
  by (simp add: aget_def)

lemma nth_update_total: "xs[i := x] ! j = (if i = j \<and> j < length xs then x else xs ! j)"
  by (cases "i < length xs") (auto simp: nth_list_update list_update_beyond)

lemma put3_put3: "put3 (put3 xs i u) i v = put3 xs i v"
  by (cases u; cases v) (simp add: put3_def list_eq_iff_nth_eq nth_update_total)

lemma supernova_step_p1_shape:
  "supernova_step_p1 vels i (ps, cs)
     = (put3 ps i (supernova_move_p1 vels i (aget3 ps i)),
        put3 cs i (supernova_color_p1 vels i (aget3 ps i)))"
proof -
  define X where "X = aget ps (i * 3) + aget vels (i * 3) * Fin 0.04"
  define Y where "Y = aget ps (i * 3 + 1) + aget vels (i * 3 + 1) * Fin 0.04"
  define Z where "Z = aget ps (i * 3 + 2) + aget vels (i * 3 + 2) * Fin 0.04"
  define ps3 where "ps3 = ps[i * 3 := X, i * 3 + 1 := Y, i * 3 + 2 := Z]"
  have p3: "ps3 = put3 ps i (X, Y, Z)"
    by (simp add: ps3_def put3_def)
  have r: "aget ps3 (i * 3) = X" "aget ps3 (i * 3 + 1) = Y" "aget ps3 (i * 3 + 2) = Z"
    by (auto simp: aget_def ps3_def X_def Y_def Z_def)
  have a: "supernova_advance_p1 vels i (aget3 ps i) = (X, Y, Z)"
    by (simp add: supernova_advance_p1_def aget3_def X_def Y_def Z_def)
  have o: "ps3[i * 3 := Fin 0, i * 3 + 1 := Fin 0, i * 3 + 2 := Fin 0]
             = put3 ps i (Fin 0, Fin 0, Fin 0)"
    using put3_put3 [of ps i "(X, Y, Z)" "(Fin 0, Fin 0, Fin 0)"]
    by (simp add: p3 put3_def)
  have s: "supernova_step_p1 vels i (ps, cs)
             = (let dist = Math_sqrt (Math_pow (aget ps3 (i * 3)) 2 + Math_pow (aget ps3 (i * 3 + 1)) 2
                              + Math_pow (aget ps3 (i * 3 + 2)) 2);
                    heat = Math_max (Fin 0) (Fin 1 - dist / Fin 18)
                in (if js_gt dist (Fin 25)
                    then ps3[i * 3 := Fin 0, i * 3 + 1 := Fin 0, i * 3 + 2 := Fin 0] else ps3,
                    cs[i * 3 := Fin 1.0, i * 3 + 1 := Math_pow heat 1.2,
                       i * 3 + 2 := Math_pow heat 2.5]))"
    by (simp add: Let_def ps3_def X_def Y_def Z_def aget_update_other)
  show ?thesis
    unfolding s r o
    by (simp add: Let_def supernova_move_p1_def supernova_color_p1_def supernova_dist_p1_def
        a p3 put3_def)
qed

lemma particle_loop2:
  assumes "\<And>i ps cs. body i (ps, cs) = (put3 ps i (F i (aget3 ps i)), put3 cs i (G i (aget3 ps i)))"
  shows "case for_loop n body (ps0, cs0) of
           (ps, cs) \<Rightarrow>
             length ps = length ps0 \<and> length cs = length cs0
             \<and> (\<forall>i. i * 3 + 2 < length ps0 \<longrightarrow>
                   aget3 ps i = (if i < n then F i (aget3 ps0 i) else aget3 ps0 i))
             \<and> (\<forall>i. i * 3 + 2 < length ps0 \<longrightarrow> i * 3 + 2 < length cs0 \<longrightarrow>
                   aget3 cs i = (if i < n then G i (aget3 ps0 i) else aget3 cs0 i))"
proof (rule for_loop_invariant_idx
    [where P = "\<lambda>m s. case s of
           (ps, cs) \<Rightarrow>
             length ps = length ps0 \<and> length cs = length cs0
             \<and> (\<forall>i. i * 3 + 2 < length ps0 \<longrightarrow>
                   aget3 ps i = (if i < m then F i (aget3 ps0 i) else aget3 ps0 i))
             \<and> (\<forall>i. i * 3 + 2 < length ps0 \<longrightarrow> i * 3 + 2 < length cs0 \<longrightarrow>
                   aget3 cs i = (if i < m then G i (aget3 ps0 i) else aget3 cs0 i))"])
  show "case (ps0, cs0) of
           (ps, cs) \<Rightarrow>
             length ps = length ps0 \<and> length cs = length cs0
             \<and> (\<forall>i. i * 3 + 2 < length ps0 \<longrightarrow>
                   aget3 ps i = (if i < 0 then F i (aget3 ps0 i) else aget3 ps0 i))
             \<and> (\<forall>i. i * 3 + 2 < length ps0 \<longrightarrow> i * 3 + 2 < length cs0 \<longrightarrow>
                   aget3 cs i = (if i < 0 then G i (aget3 ps0 i) else aget3 cs0 i))"
    by simp
next
  fix m and s :: "jsnum list \<times> jsnum list"
  assume inv: "case s of
           (ps, cs) \<Rightarrow>
             length ps = length ps0 \<and> length cs = length cs0
             \<and> (\<forall>i. i * 3 + 2 < length ps0 \<longrightarrow>
                   aget3 ps i = (if i < m then F i (aget3 ps0 i) else aget3 ps0 i))
             \<and> (\<forall>i. i * 3 + 2 < length ps0 \<longrightarrow> i * 3 + 2 < length cs0 \<longrightarrow>
                   aget3 cs i = (if i < m then G i (aget3 ps0 i) else aget3 cs0 i))"
  obtain ps cs where s: "s = (ps, cs)"
    by (cases s) auto
  have l: "length ps = length ps0" "length cs = length cs0"
    and p: "\<And>i. i * 3 + 2 < length ps0 \<Longrightarrow>
              aget3 ps i = (if i < m then F i (aget3 ps0 i) else aget3 ps0 i)"
    and c: "\<And>i. i * 3 + 2 < length ps0 \<Longrightarrow> i * 3 + 2 < length cs0 \<Longrightarrow>
              aget3 cs i = (if i < m then G i (aget3 ps0 i) else aget3 cs0 i)"
    using inv by (simp_all add: s)
  have p': "aget3 (put3 ps m (F m (aget3 ps m))) i
              = (if i < Suc m then F i (aget3 ps0 i) else aget3 ps0 i)"
    if k: "i * 3 + 2 < length ps0" for i
  proof (cases "i = m")
    case True
    then show ?thesis
      using p [OF k] k l by (simp add: aget3_put3_same)
  next
    case False
    then have "i < Suc m \<longleftrightarrow> i < m"
      by auto
    then show ?thesis
      using p [OF k] False by (simp add: aget3_put3_other)
  qed
  have c': "aget3 (put3 cs m (G m (aget3 ps m))) i
              = (if i < Suc m then G i (aget3 ps0 i) else aget3 cs0 i)"
    if k: "i * 3 + 2 < length ps0" and k': "i * 3 + 2 < length cs0" for i
  proof (cases "i = m")
    case True
    then show ?thesis
      using p [OF k] k' l by (simp add: aget3_put3_same)
  next
    case False
    then have "i < Suc m \<longleftrightarrow> i < m"
      by auto
    then show ?thesis
      using c [OF k k'] False by (simp add: aget3_put3_other)
  qed
  show "case body m s of
           (ps, cs) \<Rightarrow>
             length ps = length ps0 \<and> length cs = length cs0
             \<and> (\<forall>i. i * 3 + 2 < length ps0 \<longrightarrow>
                   aget3 ps i = (if i < Suc m then F i (aget3 ps0 i) else aget3 ps0 i))
             \<and> (\<forall>i. i * 3 + 2 < length ps0 \<longrightarrow> i * 3 + 2 < length cs0 \<longrightarrow>
                   aget3 cs i = (if i < Suc m then G i (aget3 ps0 i) else aget3 cs0 i))"
    using l p' c' by (simp add: s assms length_put3)
qed

lemma Math_pow_2: "Math_pow (Fin x) 2 = Fin (x * x)"
proof -
  consider "0 < x" | "x = 0" | "x < 0"
    by linarith
  then show ?thesis
  proof cases
    case 1
    then have "x powr 2 = x * x"
      by (simp add: power2_eq_square)
    then show ?thesis
      using 1 by (simp add: Math_pow_def)
  next
    case 2
    then show ?thesis
      by (simp add: Math_pow_def)
  next
    case 3
    then show ?thesis
      by (simp add: Math_pow_def is_integer_def power2_eq_square)
  qed
qed

lemma supernova_dist_Fin:
  "supernova_dist_p1 (Fin x, Fin y, Fin z) = Fin (sqrt (x * x + y * y + z * z))"
proof -
  have "\<not> x * x + y * y + z * z < 0"
    by (simp add: not_less add_nonneg_nonneg)
  then show ?thesis
    by (simp add: supernova_dist_p1_def Math_pow_2)
qed

lemma supernova_move_bounded:
  "\<exists>x' y' z'. supernova_move_p1 vels i (Fin x, Fin y, Fin z) = (Fin x', Fin y', Fin z')
      \<and> sqrt (x' * x' + y' * y' + z' * z') \<le> 25"
  if "aget3 vels i = (Fin vx, Fin vy, Fin vz)"
proof -
  have v: "aget vels (i * 3) = Fin vx" "aget vels (i * 3 + 1) = Fin vy"
    "aget vels (i * 3 + 2) = Fin vz"
    using that by (simp_all add: aget3_def)
  have a: "supernova_advance_p1 vels i (Fin x, Fin y, Fin z)
             = (Fin (x + vx * 0.04), Fin (y + vy * 0.04), Fin (z + vz * 0.04))"
    using v by (simp add: supernova_advance_p1_def)
  show ?thesis
    by (simp add: supernova_move_p1_def a supernova_dist_Fin Let_def not_less)
qed

lemma heat_unit:
  assumes "0 \<le> d" "0 < e"
  shows "\<exists>g. Math_pow (Math_max (Fin 0) (Fin 1 - Fin d / Fin 18)) e = Fin g \<and> 0 \<le> g \<and> g \<le> 1"
proof -
  define h where "h = max 0 (1 - d / 18)"
  have h: "0 \<le> h" "h \<le> 1"
    using assms(1) by (simp_all add: h_def)
  have "Math_max (Fin 0) (Fin 1 - Fin d / Fin 18) = Fin h"
    by (simp add: h_def minus_Fin)
  then have "Math_pow (Math_max (Fin 0) (Fin 1 - Fin d / Fin 18)) e = Fin (h powr e)"
    using h(1) assms(2) by (simp add: Math_pow_nonneg)
  moreover have "0 \<le> h powr e" "h powr e \<le> 1"
    using h assms(2) by (simp_all add: powr_le1)
  ultimately show ?thesis
    by blast
qed

lemma supernova_color_unit:
  "\<exists>g b. supernova_color_p1 vels i (Fin x, Fin y, Fin z) = (Fin 1, Fin g, Fin b)
      \<and> 0 \<le> g \<and> g \<le> 1 \<and> 0 \<le> b \<and> b \<le> 1"
  if "aget3 vels i = (Fin vx, Fin vy, Fin vz)"
proof -
  have v: "aget vels (i * 3) = Fin vx" "aget vels (i * 3 + 1) = Fin vy"
    "aget vels (i * 3 + 2) = Fin vz"
    using that by (simp_all add: aget3_def)
  have a: "supernova_advance_p1 vels i (Fin x, Fin y, Fin z)
             = (Fin (x + vx * 0.04), Fin (y + vy * 0.04), Fin (z + vz * 0.04))"
    using v by (simp add: supernova_advance_p1_def)
  define d where "d = sqrt ((x + vx * 0.04) * (x + vx * 0.04) + (y + vy * 0.04) * (y + vy * 0.04)
                            + (z + vz * 0.04) * (z + vz * 0.04))"
  have d: "0 \<le> d"
    by (simp add: d_def)
  obtain g where g: "Math_pow (Math_max (Fin 0) (Fin 1 - Fin d / Fin 18)) 1.2 = Fin g"
    "0 \<le> g" "g \<le> 1"
    using heat_unit [OF d, of "1.2"] by auto
  obtain b where b: "Math_pow (Math_max (Fin 0) (Fin 1 - Fin d / Fin 18)) 2.5 = Fin b"
    "0 \<le> b" "b \<le> 1"
    using heat_unit [OF d, of "2.5"] by auto
  have "supernova_color_p1 vels i (Fin x, Fin y, Fin z) = (Fin 1, Fin g, Fin b)"
    unfolding supernova_color_p1_def a supernova_dist_Fin Let_def d_def [symmetric] g(1) b(1)
    by simp
  then show ?thesis
    using g(2,3) b(2,3) by blast
qed

lemma fin_vec_cases: "fin_vec v \<Longrightarrow> \<exists>x y z. v = (Fin x, Fin y, Fin z)"
  by (cases v) (auto simp: fin_vec_def is_fin_iff)

text \<open>
  A loop whose pass \<open>i\<close> writes particle \<open>i\<close> of one of its arrays: every particle
  written keeps what its pass wrote.
\<close>

lemma written_loop:
  assumes "I 0 s0"
    and "\<And>i s. i < n \<Longrightarrow> I i s \<Longrightarrow>
           I (Suc i) (body i s) \<and> col (body i s) = put3 (col s) i (W i s) \<and> Q i (W i s)"
    and "n * 3 \<le> length (col s0)"
  shows "I n (for_loop n body s0) \<and> length (col (for_loop n body s0)) = length (col s0)
       \<and> (\<forall>j<n. Q j (get3 (col (for_loop n body s0)) j))"
proof (rule for_loop_invariant_idx
    [where P = "\<lambda>m s. I m s \<and> length (col s) = length (col s0)
                  \<and> (\<forall>j<m. Q j (get3 (col s) j))"])
  show "I 0 s0 \<and> length (col s0) = length (col s0) \<and> (\<forall>j<0. Q j (get3 (col s0) j))"
    using assms(1) by simp
next
  fix i s
  assume i: "i < n"
    and inv: "I i s \<and> length (col s) = length (col s0) \<and> (\<forall>j<i. Q j (get3 (col s) j))"
  define v where "v = W i s"
  have v: "I (Suc i) (body i s)" "col (body i s) = put3 (col s) i v" "Q i v"
    using assms(2) [OF i] inv by (simp_all add: v_def)
  have room: "i * 3 + 2 < length (col s)"
    using i assms(3) inv by linarith
  have "Q j (get3 (put3 (col s) i v) j)" if "j < Suc i" for j
  proof (cases "j = i")
    case True
    then show ?thesis
      using room v(3) by (simp add: get3_put3_same)
  next
    case False
    then have "j < i" using that by simp
    then show ?thesis
      using inv False by (simp add: get3_put3_other)
  qed
  then show "I (Suc i) (body i s) \<and> length (col (body i s)) = length (col s0)
               \<and> (\<forall>j<Suc i. Q j (get3 (col (body i s)) j))"
    using v(1,2) inv by (simp add: length_put3)
qed

lemma draws_before_Suc:
  "draws_before cst params rnd (Suc i)
     = fst (standard_place cst params rnd i (draws_before cst params rnd i)
              (std_rad params (rnd (draws_before cst params rnd i))))"
  by (simp add: draws_before_def for_loop_Suc)

lemma draws_before_0: "draws_before cst params rnd 0 = 0"
  by (simp add: draws_before_def for_loop_0)

lemma standard_loop_colors:
  assumes "n * 3 \<le> length cs0"
  shows "case for_loop n (standard_body cst params ci co rnd) (0, ps0, cs0) of
           (k, ps, cs) \<Rightarrow>
             length cs = length cs0
             \<and> (\<forall>j<n. get3 cs j = std_mix params ci co (rnd (draws_before cst params rnd j)))"
proof -
  let ?I = "\<lambda>m (s :: nat \<times> jsnum list \<times> jsnum list). fst s = draws_before cst params rnd m"
  let ?Q = "\<lambda>j v. v = std_mix params ci co (rnd (draws_before cst params rnd j))"
  have step: "?I (Suc i) (standard_body cst params ci co rnd i s)
                \<and> snd (snd (standard_body cst params ci co rnd i s))
                    = put3 (snd (snd s)) i (std_mix params ci co (rnd (fst s)))
                \<and> ?Q i (std_mix params ci co (rnd (fst s)))"
    if "?I i s" for i s
    using that by (cases s) (simp add: standard_body_shape draws_before_Suc)
  show ?thesis
    using written_loop [where I = ?I and ?s0.0 = "(0, ps0, cs0)" and n = n
        and body = "standard_body cst params ci co rnd" and col = "\<lambda>s. snd (snd s)" and Q = ?Q
        and W = "\<lambda>i s. std_mix params ci co (rnd (fst s))", OF _ step] assms
    by (auto simp: draws_before_0 split: prod.splits)
qed

lemma standard_loop_positions:
  assumes "n * 3 \<le> length ps0"
  shows "case for_loop n (standard_body cst params ci co rnd) (0, ps0, cs0) of
           (k, ps, cs) \<Rightarrow>
             length ps = length ps0
             \<and> (\<forall>j<n. get3 ps j
                   = single3 (snd (standard_place cst params rnd j (draws_before cst params rnd j)
                                     (std_rad params (rnd (draws_before cst params rnd j))))))"
proof -
  let ?I = "\<lambda>m (s :: nat \<times> jsnum list \<times> jsnum list). fst s = draws_before cst params rnd m"
  let ?Q = "\<lambda>j v. v = single3 (snd (standard_place cst params rnd j (draws_before cst params rnd j)
                                     (std_rad params (rnd (draws_before cst params rnd j)))))"
  have step: "?I (Suc i) (standard_body cst params ci co rnd i s)
                \<and> fst (snd (standard_body cst params ci co rnd i s))
                    = put3 (fst (snd s)) i
                        (single3 (snd (standard_place cst params rnd i (fst s)
                                         (std_rad params (rnd (fst s))))))
                \<and> ?Q i (single3 (snd (standard_place cst params rnd i (fst s)
                                         (std_rad params (rnd (fst s))))))"
    if "?I i s" for i s
    using that by (cases s) (simp add: standard_body_shape draws_before_Suc)
  show ?thesis
    using written_loop [where I = ?I and ?s0.0 = "(0, ps0, cs0)" and n = n
        and body = "standard_body cst params ci co rnd" and col = "\<lambda>s. fst (snd s)" and Q = ?Q
        and W = "\<lambda>i s. single3 (snd (standard_place cst params rnd i (fst s)
                                         (std_rad params (rnd (fst s)))))", OF _ step] assms
    by (auto simp: draws_before_0 split: prod.splits)
qed

lemma standard_generator_stars:
  assumes "0 < radius params" "valid_rng rnd" "allocatable limit (starsCount params * 3)"
    "i < nat (starsCount params)"
  shows "\<exists>ps r f. generate_standard limit cst op params (fin3 (a1, a2, a3)) (fin3 (b1, b2, b3)) rnd
                    = Inr ps
           \<and> r = sampled_radius cst params rnd i \<and> f = r / radius params \<and> 0 \<le> f \<and> f \<le> 1
           \<and> get3 (position ps) i
               = single3 (snd (standard_place cst params rnd i (draws_before cst params rnd i) (Fin r)))
           \<and> get3 (color ps) i
               = (Fin ((1 - f) * a1 + f * b1), Fin ((1 - f) * a2 + f * b2),
                  Fin ((1 - f) * a3 + f * b3))"
proof -
  let ?n = "nat (starsCount params)"
  let ?k = "draws_before cst params rnd i"
  obtain k0 ps cs where
    loop: "for_loop ?n (standard_body cst params (fin3 (a1, a2, a3)) (fin3 (b1, b2, b3)) rnd)
             (0, zeros (?n * 3), zeros (?n * 3)) = (k0, ps, cs)"
    and gen: "generate_standard limit cst op params (fin3 (a1, a2, a3)) (fin3 (b1, b2, b3)) rnd
               = Inr \<lparr>position = ps, color = cs, velocities = None, initialPositions = None,
                      isGalaxyA = None, rotation_y = 0, opacity = op\<rparr>"
    using generate_standard_Inr [OF assms(3)] by blast
  have c: "get3 cs i = std_mix params (fin3 (a1, a2, a3)) (fin3 (b1, b2, b3)) (rnd ?k)"
    using standard_loop_colors [where n = ?n and ?cs0.0 = "zeros (?n * 3)"
        and ?ps0.0 = "zeros (?n * 3)" and cst = cst and params = params
        and ci = "fin3 (a1, a2, a3)" and co = "fin3 (b1, b2, b3)" and rnd = rnd] assms(4)
    by (simp add: loop length_zeros)
  have p: "get3 ps i = single3 (snd (standard_place cst params rnd i ?k (std_rad params (rnd ?k))))"
    using standard_loop_positions [where n = ?n and ?cs0.0 = "zeros (?n * 3)"
        and ?ps0.0 = "zeros (?n * 3)" and cst = cst and params = params
        and ci = "fin3 (a1, a2, a3)" and co = "fin3 (b1, b2, b3)" and rnd = rnd] assms(4)
    by (simp add: loop length_zeros)
  define r where "r = sampled_radius cst params rnd i"
  define f where "f = r / radius params"
  have u: "0 \<le> rnd ?k" "rnd ?k < 1"
    using valid_rngD [OF assms(2), of ?k] by simp_all
  have rr: "std_rad params (rnd ?k) = Fin r"
    using u(1) by (simp add: std_rad_Fin r_def sampled_radius_def)
  have "f = rnd ?k powr 1.5"
    using assms(1) by (simp add: f_def r_def sampled_radius_def)
  then have f: "0 \<le> f" "f \<le> 1"
    using powr_unit [OF u] by simp_all
  have "get3 cs i = (Fin ((1 - f) * a1 + f * b1), Fin ((1 - f) * a2 + f * b2),
                     Fin ((1 - f) * a3 + f * b3))"
    using assms(1) u(1) by (simp add: c std_mix_Fin f_def r_def sampled_radius_def) (simp add: algebra_simps)
  then show ?thesis
    using gen f p rr r_def f_def by auto
qed

text \<open>Magnitudes: no overflow below the bounds of a moderate configuration.\<close>

lemma boundedD: "bounded b a \<Longrightarrow> \<exists>x. a = Fin x \<and> \<bar>x\<bar> \<le> b"
  by (cases a) (simp_all add: bounded_def)

lemma bounded_Fin: "\<bar>x\<bar> \<le> b \<Longrightarrow> bounded b (Fin x)"
  by (simp add: bounded_def)









































lemma sample_hyps:
  "valid_rng sample_rnd" "allocatable sample_limit (starsCount (sample_params ty) * 3)"
  "branches (sample_params ty) \<noteq> 0" "0 \<le> randomnessPower (sample_params ty)"
  "moderate (sample_params ty)" "preserves_finite sample_offsetHSL"
  by (simp_all add: valid_rng_def sample_rnd_def sample_params_def preserves_finite_def
      sample_offsetHSL_def allocatable_def sample_limit_def moderate_def)

text \<open>Rounding, and the closed form of the periodic supernova step.\<close>

lemma binexp_eqI:
  assumes "2 powi e \<le> \<bar>x\<bar>" "\<bar>x\<bar> < 2 powi (e + 1)"
  shows "binexp x = e"
proof -
  have p: "0 < \<bar>x\<bar>"
    using assms(1) by (smt (verit) zero_less_power_int)
  have 1: "(2::real) powi e = 2 powr real_of_int e" "(2::real) powi (e + 1) = 2 powr real_of_int (e + 1)"
    by (subst powr_real_of_int'; simp)+
  have "real_of_int e \<le> log 2 \<bar>x\<bar>"
    using assms(1) p unfolding 1 by (simp add: le_log_iff)
  moreover have "log 2 \<bar>x\<bar> < real_of_int (e + 1)"
    using assms(2) p unfolding 1 by (simp only: log_less_iff)
  ultimately show ?thesis
    unfolding binexp_def by linarith
qed

lemma round_even_near:
  assumes "\<bar>x - real_of_int n\<bar> < 1 / 2"
  shows "round_even x = n"
proof -
  consider "\<lfloor>x\<rfloor> = n" | "\<lfloor>x\<rfloor> = n - 1"
    using assms by linarith
  then show ?thesis
  proof cases
    case 1
    have "x - real_of_int n < 1 / 2"
      using assms by linarith
    then show ?thesis
      unfolding round_even_def Let_def 1 by simp
  next
    case 2
    have "1 / 2 < x - real_of_int (n - 1)"
      using assms 2 by linarith
    then show ?thesis
      unfolding round_even_def Let_def 2 by simp
  qed
qed

lemma round_even_tie:
  assumes "x = real_of_int n + 1 / 2"
  shows "round_even x = (if even n then n else n + 1)"
proof -
  have f: "\<lfloor>x\<rfloor> = n"
    using assms by linarith
  have "x - real_of_int n = 1 / 2"
    using assms by simp
  then show ?thesis
    unfolding round_even_def Let_def f by simp
qed

lemma round_to_nearI:
  assumes "q = 2 powi (e - int p + 1)" "emin \<le> e" "2 powi e \<le> \<bar>x\<bar>" "\<bar>x\<bar> < 2 powi (e + 1)"
    "\<bar>x - real_of_int n * q\<bar> < q / 2"
  shows "round_to p emin x = real_of_int n * q"
proof -
  have x: "x \<noteq> 0"
    using assms(3) by (smt (verit) zero_less_power_int)
  have q: "0 < q"
    unfolding assms(1) by simp
  have "\<bar>x / q - real_of_int n\<bar> = \<bar>x - real_of_int n * q\<bar> / q"
    using q by (simp add: field_simps abs_if)
  also have "\<dots> < 1 / 2"
    using assms(5) q by (simp add: field_simps)
  finally have "round_even (x / q) = n"
    by (rule round_even_near)
  then show ?thesis
    using x binexp_eqI [OF assms(3,4)] assms(1,2) by (simp add: round_to_def Let_def max_def)
qed

lemma round_to_tieI:
  assumes "q = 2 powi (e - int p + 1)" "emin \<le> e" "2 powi e \<le> \<bar>x\<bar>" "\<bar>x\<bar> < 2 powi (e + 1)"
    "x = real_of_int n * q + q / 2"
  shows "round_to p emin x = real_of_int (if even n then n else n + 1) * q"
proof -
  have x: "x \<noteq> 0"
    using assms(3) by (smt (verit) zero_less_power_int)
  have q: "0 < q"
    unfolding assms(1) by simp
  have "x / q = real_of_int n + 1 / 2"
    using q assms(5) by (simp add: field_simps)
  then have "round_even (x / q) = (if even n then n else n + 1)"
    by (rule round_even_tie)
  then show ?thesis
    using x binexp_eqI [OF assms(3,4)] assms(1,2) by (simp add: round_to_def Let_def max_def)
qed







lemma supernova_step_p2b_fst:
  "fst (supernova_step_p2b vels progress i (ps, cs))
     = ps[i * 3 := periodic_entry vels progress (i * 3),
          i * 3 + 1 := periodic_entry vels progress (i * 3 + 1),
          i * 3 + 2 := periodic_entry vels progress (i * 3 + 2)]"
  by (simp add: Let_def periodic_entry_def)

lemma update3_nth:
  assumes "length ps = n" "j < n" "ps ! j = (if j < i * 3 then E j else ps0 ! j)"
  shows "ps[i * 3 := E (i * 3), i * 3 + 1 := E (i * 3 + 1), i * 3 + 2 := E (i * 3 + 2)] ! j
           = (if j < Suc i * 3 then E j else ps0 ! j)"
proof -
  consider "j = i * 3" | "j = i * 3 + 1" | "j = i * 3 + 2" | "j < i * 3" | "i * 3 + 2 < j"
    by linarith
  then show ?thesis
    using assms by cases (simp_all add: nth_update_total)
qed

lemma supernova_loop_p2b_positions:
  "fst (for_loop m (supernova_step_p2b vels progress) (ps0, cs0))
     = map (\<lambda>j. if j < m * 3 then periodic_entry vels progress j else ps0 ! j) [0..<length ps0]"
proof (rule for_loop_invariant_idx
    [where P = "\<lambda>m s. fst s = map (\<lambda>j. if j < m * 3 then periodic_entry vels progress j
                                         else ps0 ! j) [0..<length ps0]"])
  show "fst (ps0, cs0) = map (\<lambda>j. if j < 0 * 3 then periodic_entry vels progress j else ps0 ! j)
                           [0..<length ps0]"
    by (simp add: map_nth)
next
  fix i and s :: "jsnum list \<times> jsnum list"
  assume inv: "fst s = map (\<lambda>j. if j < i * 3 then periodic_entry vels progress j else ps0 ! j)
                         [0..<length ps0]"
  obtain ps cs where s: "s = (ps, cs)"
    by (cases s) auto
  have l: "length ps = length ps0"
    using inv by (simp add: s)
  have n: "ps ! j = (if j < i * 3 then periodic_entry vels progress j else ps0 ! j)"
    if "j < length ps0" for j
    using inv that by (simp add: s)
  have "ps[i * 3 := periodic_entry vels progress (i * 3),
           i * 3 + 1 := periodic_entry vels progress (i * 3 + 1),
           i * 3 + 2 := periodic_entry vels progress (i * 3 + 2)] ! j
          = (if j < Suc i * 3 then periodic_entry vels progress j else ps0 ! j)"
    if "j < length ps0" for j
    using l that n [OF that] by (rule update3_nth)
  then have "ps[i * 3 := periodic_entry vels progress (i * 3),
           i * 3 + 1 := periodic_entry vels progress (i * 3 + 1),
           i * 3 + 2 := periodic_entry vels progress (i * 3 + 2)]
          = map (\<lambda>j. if j < Suc i * 3 then periodic_entry vels progress j else ps0 ! j)
              [0..<length ps0]"
    by (intro nth_equalityI) (simp_all add: l)
  then show "fst (supernova_step_p2b vels progress i s)
          = map (\<lambda>j. if j < Suc i * 3 then periodic_entry vels progress j else ps0 ! j)
              [0..<length ps0]"
    unfolding s supernova_step_p2b_fst .
qed

lemma supernova_loop_p2b_all:
  assumes "length ps0 = n"
  shows "fst (for_loop (particle_count ps0) (supernova_step_p2b vels progress) (ps0, cs0))
           = periodic_positions vels progress n"
proof -
  have "j < particle_count ps0 * 3" if "j < length ps0" for j
    using that unfolding particle_count_def by presburger
  then show ?thesis
    using assms by (simp add: supernova_loop_p2b_positions periodic_positions_def)
qed

lemma animate_p2b_supernova:
  assumes "type params = SUPERNOVA" "velocities s = Some vels"
  shows "\<exists>s'. animate_p2b t params (Some s) = Inr (Some s')
           \<and> position s' = periodic_positions vels (progress_of t) (length (position s))"
proof -
  have key: "\<exists>cs. for_loop (particle_count ps0) (supernova_step_p2b vels (progress_of t))
                     (ps0, color s)
                   = (periodic_positions vels (progress_of t) (length (position s)), cs)"
    if "length ps0 = length (position s)" for ps0
    using supernova_loop_p2b_all [OF that, of vels "progress_of t" "color s"]
    by (metis prod.collapse)
  obtain cs1 where 1:
    "for_loop (particle_count (zeros (length (position s))))
       (supernova_step_p2b vels (progress_of t)) (zeros (length (position s)), color s)
     = (periodic_positions vels (progress_of t) (length (position s)), cs1)"
    using key [of "zeros (length (position s))"] by (auto simp: length_zeros)
  obtain cs2 where 2:
    "for_loop (particle_count (position s))
       (supernova_step_p2b vels (progress_of t)) (position s, color s)
     = (periodic_positions vels (progress_of t) (length (position s)), cs2)"
    using key [of "position s"] by auto
  show ?thesis
    using assms by (simp add: animate_p2b_def Let_def 1 2)
qed

text \<open>The roundings of the two runs of the step that differ in the last place.\<close>

lemma tie_time_double: "rd64 (5095514895165835 / 2 ^ 50) = 5095514895165835 / 2 ^ 50"
  unfolding rd64_def
  using round_to_nearI [where e = "2" and x = "5095514895165835 / 2 ^ 50"
      and emin = "- 1022" and p = 53
      and n = 5095514895165835 and q = "1 / 2 ^ 50"]
  by (simp add: power_int_minus_divide)

lemma tie_time_plus_ten: "rd64 (5095514895165835 / 2 ^ 50 + 10) = 4088628490898019 / 2 ^ 48"
  unfolding rd64_def
  using round_to_tieI [where e = "3" and x = "5095514895165835 / 2 ^ 50 + 10"
      and emin = "- 1022" and p = 53
      and n = 8177256981796037 and q = "1 / 2 ^ 49"]
  by (simp add: power_int_minus_divide)

lemma tie_quotient: "rd64 ((5095514895165835 / 2 ^ 50) / 10) = 1019102979033167 / 2 ^ 51"
  unfolding rd64_def
  using round_to_nearI [where e = "- 2" and x = "(5095514895165835 / 2 ^ 50) / 10"
      and emin = "- 1022" and p = 53
      and n = 8152823832265336 and q = "1 / 2 ^ 54"]
  by (simp add: power_int_minus_divide)

lemma tie_factor: "rd64 (1019102979033167 / 2 ^ 51 * 15) = 477704521421797 / 2 ^ 46"
  unfolding rd64_def
  using round_to_tieI [where e = "2" and x = "1019102979033167 / 2 ^ 51 * 15"
      and emin = "- 1022" and p = 53
      and n = 7643272342748752 and q = "1 / 2 ^ 50"]
  by (simp add: power_int_minus_divide)

lemma tie_product: "rd64 (11376765 / 2 ^ 22 * (477704521421797 / 2 ^ 46)) = 5182964400914431 / 2 ^ 48"
  unfolding rd64_def
  using round_to_nearI [where e = "4" and x = "11376765 / 2 ^ 22 * (477704521421797 / 2 ^ 46)"
      and emin = "- 1022" and p = 53
      and n = 5182964400914431 and q = "1 / 2 ^ 48"]
  by (simp add: power_int_minus_divide)

lemma tie_stored: "rd32 (5182964400914431 / 2 ^ 48) = 9654023 / 2 ^ 19"
  unfolding rd32_def
  using round_to_nearI [where e = "4" and x = "5182964400914431 / 2 ^ 48"
      and emin = "- 126" and p = 24
      and n = 9654023 and q = "1 / 2 ^ 19"]
  by (simp add: power_int_minus_divide)

lemma tie_later_quotient: "rd64 ((1273878723791459 / 2 ^ 48) / 10) = 4076411916132669 / 2 ^ 53"
  unfolding rd64_def
  using round_to_nearI [where e = "- 2" and x = "(1273878723791459 / 2 ^ 48) / 10"
      and emin = "- 1022" and p = 53
      and n = 8152823832265338 and q = "1 / 2 ^ 54"]
  by (simp add: power_int_minus_divide)

lemma tie_later_factor: "rd64 (4076411916132669 / 2 ^ 53 * 15) = 3821636171374377 / 2 ^ 49"
  unfolding rd64_def
  using round_to_nearI [where e = "2" and x = "4076411916132669 / 2 ^ 53 * 15"
      and emin = "- 1022" and p = 53
      and n = 7643272342748754 and q = "1 / 2 ^ 50"]
  by (simp add: power_int_minus_divide)

lemma tie_later_product: "rd64 (11376765 / 2 ^ 22 * (3821636171374377 / 2 ^ 49)) = 19308047 / 2 ^ 20"
  unfolding rd64_def
  using round_to_nearI [where e = "4" and x = "11376765 / 2 ^ 22 * (3821636171374377 / 2 ^ 49)"
      and emin = "- 1022" and p = 53
      and n = 5182964400914432 and q = "1 / 2 ^ 48"]
  by (simp add: power_int_minus_divide)

lemma tie_later_stored: "rd32 (19308047 / 2 ^ 20) = 1206753 / 2 ^ 16"
  unfolding rd32_def
  using round_to_tieI [where e = "4" and x = "19308047 / 2 ^ 20"
      and emin = "- 126" and p = 24
      and n = 9654023 and q = "1 / 2 ^ 19"]
  by (simp add: power_int_minus_divide)

lemma fmod_tie: "fmod tie_time 10 = 5095514895165835 / 2 ^ 50"
  "fmod tie_time_later 10 = 1273878723791459 / 2 ^ 48"
  by (simp_all add: fmod_def trunc_def tie_time_def tie_time_later_def)

lemma progress_tie: "progress_of tie_time = 1019102979033167 / 2 ^ 51"
  "progress_of tie_time_later = 4076411916132669 / 2 ^ 53"
  unfolding progress_of_def Let_def fmod_tie by (rule tie_quotient tie_later_quotient)+

lemma aget_first: "aget (x # xs) 0 = x"
  by (simp add: aget_def)

lemma entry_tie:
  "periodic_entry [Fin (11376765 / 2 ^ 22), Fin 0, Fin 0] (1019102979033167 / 2 ^ 51) 0
     = Fin (9654023 / 2 ^ 19)"
  "periodic_entry [Fin (11376765 / 2 ^ 22), Fin 0, Fin 0] (4076411916132669 / 2 ^ 53) 0
     = Fin (1206753 / 2 ^ 16)"
proof -
  have d: "to_double (Fin (11376765 / 2 ^ 22) * Fin (477704521421797 / 2 ^ 46))
             = Fin (5182964400914431 / 2 ^ 48)"
    "to_double (Fin (11376765 / 2 ^ 22) * Fin (3821636171374377 / 2 ^ 49))
             = Fin (19308047 / 2 ^ 20)"
    unfolding times_jsnum.simps to_double_def jsnum.case tie_product tie_later_product
    by (simp_all add: double_range_def overflow_def)
  have s: "to_single (Fin (5182964400914431 / 2 ^ 48)) = Fin (9654023 / 2 ^ 19)"
    "to_single (Fin (19308047 / 2 ^ 20)) = Fin (1206753 / 2 ^ 16)"
    unfolding to_single_def jsnum.case tie_stored tie_later_stored
    by (simp_all add: single_range_def overflow_def)
  show "periodic_entry [Fin (11376765 / 2 ^ 22), Fin 0, Fin 0] (1019102979033167 / 2 ^ 51) 0
          = Fin (9654023 / 2 ^ 19)"
    unfolding periodic_entry_def tie_factor aget_first d s by (rule refl)
  show "periodic_entry [Fin (11376765 / 2 ^ 22), Fin 0, Fin 0] (4076411916132669 / 2 ^ 53) 0
          = Fin (1206753 / 2 ^ 16)"
    unfolding periodic_entry_def tie_later_factor aget_first d s by (rule refl)
qed

section \<open>The claims\<close>

text \<open>
  C7. The separation of the two centres in the collision step,
  \<open>D(t) = 8 \<cdot> cos (0.4 \<cdot> t)\<close>, stays within \<open>[-8, 8]\<close> for every elapsed time and has
  the period \<open>2\<pi> / 0.4\<close>.
\<close>

theorem collision_dist_bounded_periodic:
  "- 8 \<le> collision_dist t \<and> collision_dist t \<le> 8
   \<and> collision_dist (t + 2 * pi / 0.4) = collision_dist t"
proof -
  have "(t + 2 * pi / 0.4) * 0.4 = t * 0.4 + 2 * pi"
    by (simp add: algebra_simps)
  then have "cos ((t + 2 * pi / 0.4) * 0.4) = cos (t * 0.4)"
    by (simp only: cos_periodic)
  moreover have "- 1 \<le> cos (t * 0.4)" "cos (t * 0.4) \<le> 1"
    by simp_all
  ultimately show ?thesis
    by (simp add: collision_dist_def Let_def)
qed

text \<open>
  C6, as amended. For a galaxy type (not an event), the frame callbacks of \<^verbatim>\<open>part_001\<close>
  and of the second revision of \<^verbatim>\<open>part_002\<close> set the rotation about the vertical axis
  to the elapsed time times \<open>0.02\<close> for elliptical and lenticular galaxies and times
  \<open>0.05\<close> otherwise; the first revision of \<^verbatim>\<open>part_002\<close> sets it to the elapsed time
  times \<open>0.05\<close> for every type.
\<close>

theorem rigid_rotation_rate:
  assumes "type params \<in> galaxy_types"
  shows "animate_p1 t params (Some s) = Inr (Some (s\<lparr>rotation_y := t * spec_rate (type params)\<rparr>))
       \<and> animate_p2b t params (Some s) = Inr (Some (s\<lparr>rotation_y := t * spec_rate (type params)\<rparr>))
       \<and> animate_p2a t (Some s) = Some (s\<lparr>rotation_y := t * 0.05\<rparr>)"
  using galaxy_not_event [OF assms]
  by (simp add: animate_p1_def animate_p2b_def animate_p2a_def spec_rate_def Let_def)

theorem rigid_rotation_rate_witness:
  "type (sample_params ELLIPTICAL) \<in> galaxy_types
   \<and> animate_p1 2 (sample_params ELLIPTICAL) (Some no_points)
       = Inr (Some (no_points\<lparr>rotation_y := 2 * spec_rate (type (sample_params ELLIPTICAL))\<rparr>))
   \<and> animate_p2b 2 (sample_params ELLIPTICAL) (Some no_points)
       = Inr (Some (no_points\<lparr>rotation_y := 2 * spec_rate (type (sample_params ELLIPTICAL))\<rparr>))
   \<and> animate_p2a 2 (Some no_points) = Some (no_points\<lparr>rotation_y := 2 * 0.05\<rparr>)"
proof -
  have h: "type (sample_params ELLIPTICAL) \<in> galaxy_types"
    by (simp add: sample_params_def galaxy_types_def)
  show ?thesis
    using h rigid_rotation_rate [OF h, of 2 no_points] by simp
qed

text \<open>
  C6 as stated fails in the first revision of \<^verbatim>\<open>part_002\<close>: for an elliptical galaxy
  the rotation after one second is \<open>0.05\<close>, not \<open>0.02\<close>.
\<close>

theorem rigid_rotation_rate_counterexample:
  "ELLIPTICAL \<in> galaxy_types
   \<and> map_option rotation_y (animate_p2a 1 (Some no_points)) \<noteq> Some (1 * spec_rate ELLIPTICAL)"
  by (simp add: galaxy_types_def animate_p2a_def spec_rate_def no_points_def)

text \<open>
  C1, as amended. When the engine allocates arrays of three times \<^verbatim>\<open>starsCount\<close>
  numbers, generation succeeds, and the position and colour arrays have the same length:
  three times \<^verbatim>\<open>starsCount\<close> for the five galaxy types (and for the collision of
  \<^verbatim>\<open>part_001\<close>), and a fixed length for the events, whatever \<^verbatim>\<open>starsCount\<close> is:
  \<open>3 \<cdot> 100000\<close> and \<open>3 \<cdot> 150000\<close> for the supernova and the quasar of \<^verbatim>\<open>part_001\<close>;
  \<open>3 \<cdot> 150000\<close>, \<open>3 \<cdot> 200000\<close> and \<open>3 \<cdot> 150000\<close> for the supernova, the quasar and the
  collision of the second revision of \<^verbatim>\<open>part_002\<close>.
\<close>

theorem generated_array_lengths:
  assumes "allocatable limit (starsCount params * 3)"
  shows "(\<exists>ps. generate_p1 limit mkColor rnd params = Inr ps
            \<and> length (position ps) = stars_length_p1 params
            \<and> length (color ps) = stars_length_p1 params)
       \<and> (\<exists>ps. generate_p2b limit mkColor offsetHSL rnd params = Inr ps
            \<and> length (position ps) = stars_length_p2b params
            \<and> length (color ps) = stars_length_p2b params)"
  using generate_p1_lengths [OF assms] generate_p2b_lengths [OF assms] by blast

theorem generated_array_lengths_witness:
  "allocatable sample_limit (starsCount (sample_params SPIRAL) * 3)
   \<and> (\<exists>ps. generate_p1 sample_limit sample_mkColor sample_rnd (sample_params SPIRAL) = Inr ps
         \<and> length (position ps) = stars_length_p1 (sample_params SPIRAL)
         \<and> length (color ps) = stars_length_p1 (sample_params SPIRAL))
   \<and> (\<exists>ps. generate_p2b sample_limit sample_mkColor sample_offsetHSL sample_rnd
               (sample_params SPIRAL) = Inr ps
         \<and> length (position ps) = stars_length_p2b (sample_params SPIRAL)
         \<and> length (color ps) = stars_length_p2b (sample_params SPIRAL))"
proof -
  have h: "allocatable sample_limit (starsCount (sample_params SPIRAL) * 3)"
    by (rule sample_hyps)
  show ?thesis
    using h generated_array_lengths [OF h, of sample_mkColor sample_rnd sample_offsetHSL]
    by simp
qed

text \<open>
  C1 as stated fails for events: the supernova of \<^verbatim>\<open>part_001\<close> with
  \<^verbatim>\<open>starsCount = 2\<close> has a position array of length \<open>300000\<close>, not \<open>6\<close>.
\<close>

theorem generated_array_lengths_counterexample:
  "generate_p1 sample_limit sample_mkColor sample_rnd (sample_params SUPERNOVA)
     = Inr (generate_supernova_p1 sample_rnd)
   \<and> length (position (generate_supernova_p1 sample_rnd)) = 300000
   \<and> length (position (generate_supernova_p1 sample_rnd))
       \<noteq> 3 * nat (starsCount (sample_params SUPERNOVA))"
  using generate_supernova_p1_lengths [of sample_rnd]
  by (simp add: generate_p1_def sample_params_def Let_def)




text \<open>
  C8. For a galaxy type with a positive \<^verbatim>\<open>radius\<close>, star \<open>i\<close> is placed with the radius
  \<open>r = u powr 1.5 \<cdot> radius\<close> that pass \<open>i\<close> of the loop samples from its first result
  \<open>u\<close> of \<^verbatim>\<open>Math.random()\<close> (\<open>sampled_radius\<close>), and its colour is the convex combination
  \<open>(1 - f) \<cdot> insideColor + f \<cdot> outsideColor\<close> with the fraction \<open>f = r / radius\<close> of that
  same \<open>r\<close>, which lies in \<open>[0, 1]\<close>; in both revisions.
\<close>

theorem standard_colors_convex:
  assumes "type params \<in> galaxy_types" "0 < radius params" "valid_rng rnd"
    "allocatable limit (starsCount params * 3)" "i < nat (starsCount params)"
    "mkColor (insideColor params) = (a1, a2, a3)" "mkColor (outsideColor params) = (b1, b2, b3)"
  shows "(\<exists>ps r f. generate_p1 limit mkColor rnd params = Inr ps
            \<and> r = sampled_radius (0.7, 0.85, 0.35, 0.12) params rnd i
            \<and> f = r / radius params \<and> 0 \<le> f \<and> f \<le> 1
            \<and> get3 (position ps) i
                = single3 (snd (standard_place (0.7, 0.85, 0.35, 0.12) params rnd i
                                  (draws_before (0.7, 0.85, 0.35, 0.12) params rnd i) (Fin r)))
            \<and> get3 (color ps) i
                = (Fin ((1 - f) * a1 + f * b1), Fin ((1 - f) * a2 + f * b2),
                   Fin ((1 - f) * a3 + f * b3)))
       \<and> (\<exists>ps r f. generate_p2b limit mkColor offsetHSL rnd params = Inr ps
            \<and> r = sampled_radius (0.75, 0.9, 0.4, 0.1) params rnd i
            \<and> f = r / radius params \<and> 0 \<le> f \<and> f \<le> 1
            \<and> get3 (position ps) i
                = single3 (snd (standard_place (0.75, 0.9, 0.4, 0.1) params rnd i
                                  (draws_before (0.75, 0.9, 0.4, 0.1) params rnd i) (Fin r)))
            \<and> get3 (color ps) i
                = (Fin ((1 - f) * a1 + f * b1), Fin ((1 - f) * a2 + f * b2),
                   Fin ((1 - f) * a3 + f * b3)))"
proof -
  note t = galaxy_not_event [OF assms(1)]
  have 1: "generate_p1 limit mkColor rnd params
             = generate_standard limit (0.7, 0.85, 0.35, 0.12) 0.65 params
                 (fin3 (a1, a2, a3)) (fin3 (b1, b2, b3)) rnd"
    using t by (simp add: generate_p1_def Let_def assms(6,7))
  have 2: "generate_p2b limit mkColor offsetHSL rnd params
             = generate_standard limit (0.75, 0.9, 0.4, 0.1) 0.6 params
                 (fin3 (a1, a2, a3)) (fin3 (b1, b2, b3)) rnd"
    using t by (simp add: generate_p2b_def Let_def assms(6,7))
  show ?thesis
    unfolding 1 2
    by (intro conjI standard_generator_stars assms(2-5))
qed

theorem standard_colors_convex_witness:
  "type (sample_params SPIRAL) \<in> galaxy_types \<and> 0 < radius (sample_params SPIRAL)
   \<and> valid_rng sample_rnd \<and> allocatable sample_limit (starsCount (sample_params SPIRAL) * 3)
   \<and> 0 < nat (starsCount (sample_params SPIRAL))
   \<and> sample_mkColor (insideColor (sample_params SPIRAL)) = (1, 0, 0)
   \<and> sample_mkColor (outsideColor (sample_params SPIRAL)) = (0, 0, 1)
   \<and> (\<exists>ps r f. generate_p1 sample_limit sample_mkColor sample_rnd (sample_params SPIRAL) = Inr ps
         \<and> r = sampled_radius (0.7, 0.85, 0.35, 0.12) (sample_params SPIRAL) sample_rnd 0
         \<and> f = r / radius (sample_params SPIRAL) \<and> 0 \<le> f \<and> f \<le> 1
         \<and> get3 (position ps) 0
             = single3 (snd (standard_place (0.7, 0.85, 0.35, 0.12) (sample_params SPIRAL)
                               sample_rnd 0
                               (draws_before (0.7, 0.85, 0.35, 0.12) (sample_params SPIRAL)
                                  sample_rnd 0) (Fin r)))
         \<and> get3 (color ps) 0
             = (Fin ((1 - f) * 1 + f * 0), Fin ((1 - f) * 0 + f * 0), Fin ((1 - f) * 0 + f * 1)))
   \<and> (\<exists>ps r f. generate_p2b sample_limit sample_mkColor sample_offsetHSL sample_rnd
                   (sample_params SPIRAL) = Inr ps
         \<and> r = sampled_radius (0.75, 0.9, 0.4, 0.1) (sample_params SPIRAL) sample_rnd 0
         \<and> f = r / radius (sample_params SPIRAL) \<and> 0 \<le> f \<and> f \<le> 1
         \<and> get3 (position ps) 0
             = single3 (snd (standard_place (0.75, 0.9, 0.4, 0.1) (sample_params SPIRAL)
                               sample_rnd 0
                               (draws_before (0.75, 0.9, 0.4, 0.1) (sample_params SPIRAL)
                                  sample_rnd 0) (Fin r)))
         \<and> get3 (color ps) 0
             = (Fin ((1 - f) * 1 + f * 0), Fin ((1 - f) * 0 + f * 0), Fin ((1 - f) * 0 + f * 1)))"
proof -
  have h1: "type (sample_params SPIRAL) \<in> galaxy_types"
    by (simp add: sample_params_def galaxy_types_def)
  have h2: "0 < radius (sample_params SPIRAL)"
    by (simp add: sample_params_def)
  have h3: "valid_rng sample_rnd"
    by (rule sample_hyps)
  have h4: "allocatable sample_limit (starsCount (sample_params SPIRAL) * 3)"
    by (rule sample_hyps)
  have h5: "0 < nat (starsCount (sample_params SPIRAL))"
    by (simp add: sample_params_def)
  have h6: "sample_mkColor (insideColor (sample_params SPIRAL)) = (1, 0, 0)"
    by (simp add: sample_params_def sample_mkColor_def)
  have h7: "sample_mkColor (outsideColor (sample_params SPIRAL)) = (0, 0, 1)"
    by (simp add: sample_params_def sample_mkColor_def ascii_def)
  show ?thesis
    using h1 h2 h3 h4 h5 h6 h7
      standard_colors_convex [OF h1 h2 h3 h4 h5 h6 h7, of sample_offsetHSL]
    by blast
qed




text \<open>
  C5. One quasar step leaves the planar radius \<open>sqrt (x \<cdot> x + z \<cdot> z)\<close> of every particle
  with finite \<open>x\<close> and \<open>z\<close> unchanged, in both revisions: the step rotates \<open>(x, z)\<close> about the
  vertical axis and changes nothing else of them.
\<close>

theorem quasar_step_preserves_planar_radius:
  assumes "type params = QUASAR" "i * 3 + 2 < length (position s)"
    "is_fin (position s ! (i * 3))" "is_fin (position s ! (i * 3 + 2))"
  shows "\<exists>s1 s2. animate_p1 t params (Some s) = Inr (Some s1)
           \<and> animate_p2b t params (Some s) = Inr (Some s2)
           \<and> is_fin (planar_radius (position s) i)
           \<and> planar_radius (position s1) i = planar_radius (position s) i
           \<and> planar_radius (position s2) i = planar_radius (position s) i"
proof -
  obtain a b where ab: "position s ! (i * 3) = Fin a" "position s ! (i * 3 + 2) = Fin b"
    using assms(3,4) by (auto simp: is_fin_iff)
  then have p: "aget3 (position s) i = (Fin a, aget (position s) (i * 3 + 1), Fin b)"
    using assms(2) by (simp add: aget3_def aget_def)
  obtain s1 where 1: "animate_p1 t params (Some s) = Inr (Some s1)"
    "aget3 (position s1) i = quasar_move_p1 t (aget3 (position s) i)"
    using animate_p1_quasar [OF assms(1,2)] by blast
  obtain s2 where 2: "animate_p2b t params (Some s) = Inr (Some s2)"
    "aget3 (position s2) i = quasar_move_p2b t (aget3 (position s) i)"
    using animate_p2b_quasar [OF assms(1,2)] by blast
  have r0: "planar_radius (position s) i = Fin (sqrt (a * a + b * b))"
    using p by (rule planar_radius_aget3)
  have r1: "planar_radius (position s1) i = Fin (sqrt (a * a + b * b))"
    using quasar_move_p1_radius [of t a "aget (position s) (i * 3 + 1)" b] 1(2) p
    by (auto simp: planar_radius_aget3 rotation_radius)
  have r2: "planar_radius (position s2) i = Fin (sqrt (a * a + b * b))"
    using quasar_move_p2b_radius [of t a "aget (position s) (i * 3 + 1)" b] 2(2) p
    by (auto simp: planar_radius_aget3 rotation_radius)
  show ?thesis
    using 1(1) 2(1) r0 r1 r2 by simp
qed

theorem quasar_step_preserves_planar_radius_witness:
  "type (sample_params QUASAR) = QUASAR \<and> 0 * 3 + 2 < length (position one_particle)
   \<and> is_fin (position one_particle ! (0 * 3)) \<and> is_fin (position one_particle ! (0 * 3 + 2))
   \<and> (\<exists>s1 s2. animate_p1 1 (sample_params QUASAR) (Some one_particle) = Inr (Some s1)
         \<and> animate_p2b 1 (sample_params QUASAR) (Some one_particle) = Inr (Some s2)
         \<and> is_fin (planar_radius (position one_particle) 0)
         \<and> planar_radius (position s1) 0 = planar_radius (position one_particle) 0
         \<and> planar_radius (position s2) 0 = planar_radius (position one_particle) 0)"
proof -
  have h1: "type (sample_params QUASAR) = QUASAR"
    by (simp add: sample_params_def)
  have h2: "0 * 3 + 2 < length (position one_particle)"
    by (simp add: one_particle_def)
  have h3: "is_fin (position one_particle ! (0 * 3))"
    by (simp add: one_particle_def)
  have h4: "is_fin (position one_particle ! (0 * 3 + 2))"
    by (simp add: one_particle_def)
  show ?thesis
    using h1 h2 h3 h4 quasar_step_preserves_planar_radius [OF h1 h2 h3 h4, of 1]
    by blast
qed

text \<open>
  C9. In the second revision of \<^verbatim>\<open>part_002\<close>, generating a collision leaves the
  position array all zeros (every particle at the origin) and stores the local positions
  and the group flags; the first step then gives every particle \<open>i\<close> the position
  \<open>collision_place t ip isA i\<close>, computed from the elapsed time, the stored local
  positions and the group flags only.
\<close>

theorem collision_generated_at_origin:
  assumes "type params = COLLISION"
  shows "\<exists>g ip isA s'. generate_p2b limit mkColor offsetHSL rnd params = Inr g
           \<and> position g = zeros (150000 * 3)
           \<and> initialPositions g = Some ip \<and> isGalaxyA g = Some isA
           \<and> animate_p2b t params (Some g) = Inr (Some s')
           \<and> length (position s') = 150000 * 3
           \<and> (\<forall>i<150000. get3 (position s') i = collision_place t ip isA i)"
proof -
  let ?g = "generate_collision_p2b params (fin3 (mkColor (insideColor params)))
              (fin3 (mkColor (outsideColor params))) offsetHSL rnd"
  have gen: "generate_p2b limit mkColor offsetHSL rnd params = Inr ?g"
    using assms COLLISION_neq by (simp add: generate_p2b_def Let_def)
  obtain ip isA where f: "position ?g = zeros (150000 * 3)" "initialPositions ?g = Some ip"
    "isGalaxyA ?g = Some isA"
    using generate_collision_p2b_fields by blast
  obtain s' where s': "animate_p2b t params (Some ?g) = Inr (Some s')"
    "length (position s') = length (position ?g)"
    "\<And>i. i * 3 + 2 < length (position ?g) \<Longrightarrow> get3 (position s') i = collision_place t ip isA i"
    using animate_p2b_collision [OF assms f(2,3)] by blast
  have "get3 (position s') i = collision_place t ip isA i" if "i < 150000" for i
    using that by (intro s'(3)) (simp add: f(1) length_zeros)
  then show ?thesis
    using gen f s'(1,2) by (auto simp: length_zeros)
qed

theorem collision_generated_at_origin_witness:
  "type (sample_params COLLISION) = COLLISION
   \<and> (\<exists>g ip isA s'.
         generate_p2b sample_limit sample_mkColor sample_offsetHSL sample_rnd (sample_params COLLISION) = Inr g
         \<and> position g = zeros (150000 * 3)
         \<and> initialPositions g = Some ip \<and> isGalaxyA g = Some isA
         \<and> animate_p2b 1 (sample_params COLLISION) (Some g) = Inr (Some s')
         \<and> length (position s') = 150000 * 3
         \<and> (\<forall>i<150000. get3 (position s') i = collision_place 1 ip isA i))"
proof -
  have h: "type (sample_params COLLISION) = COLLISION"
    by (simp add: sample_params_def)
  show ?thesis
    using h collision_generated_at_origin [OF h, of sample_limit sample_mkColor sample_offsetHSL sample_rnd 1]
    by blast
qed



text \<open>
  C4 as stated fails for elapsed times whose sum with ten is not a double. The elapsed
  time \<open>t = 4.525726367146841\<close> is a double, and the double nearest to \<open>t + 10\<close> is
  \<open>14.525726367146842\<close>. For a particle with the velocity \<open>2.7124321460723877\<close> along
  \<open>x\<close>, the step at the first time stores \<open>9654023 / 2^19\<close> and the step at the second
  \<open>9654024 / 2^19\<close>, neighbours in single precision: they differ by \<open>2^-19\<close>, more than
  \<open>10^-6\<close>.
\<close>

theorem supernova_periodic_step_counterexample:
  "rd64 tie_time = tie_time \<and> rd64 (tie_time + 10) = tie_time_later
   \<and> (\<exists>s1 s2. animate_p2b tie_time (sample_params SUPERNOVA) (Some tie_particle) = Inr (Some s1)
         \<and> animate_p2b tie_time_later (sample_params SUPERNOVA) (Some tie_particle)
             = Inr (Some s2)
         \<and> position s1 ! 0 = Fin (9654023 / 2 ^ 19) \<and> position s2 ! 0 = Fin (1206753 / 2 ^ 16)
         \<and> 1 / 10 ^ 6 < \<bar>9654023 / 2 ^ 19 - 1206753 / 2 ^ 16 :: real\<bar>)"
proof -
  have h: "type (sample_params SUPERNOVA) = SUPERNOVA"
    "velocities tie_particle = Some [Fin (11376765 / 2 ^ 22), Fin 0, Fin 0]"
    "length (position tie_particle) = 3"
    by (simp_all add: sample_params_def tie_particle_def)
  obtain s1 where 1:
    "animate_p2b tie_time (sample_params SUPERNOVA) (Some tie_particle) = Inr (Some s1)"
    "position s1 = periodic_positions [Fin (11376765 / 2 ^ 22), Fin 0, Fin 0]
                     (progress_of tie_time) (length (position tie_particle))"
    using animate_p2b_supernova [OF h(1,2)] by blast
  obtain s2 where 2:
    "animate_p2b tie_time_later (sample_params SUPERNOVA) (Some tie_particle) = Inr (Some s2)"
    "position s2 = periodic_positions [Fin (11376765 / 2 ^ 22), Fin 0, Fin 0]
                     (progress_of tie_time_later) (length (position tie_particle))"
    using animate_p2b_supernova [OF h(1,2)] by blast
  have n: "map f [0..<3] ! 0 = f 0" for f :: "nat \<Rightarrow> jsnum"
    by simp
  have "position s1 ! 0 = Fin (9654023 / 2 ^ 19)" "position s2 ! 0 = Fin (1206753 / 2 ^ 16)"
    unfolding 1(2) 2(2) h(3) progress_tie periodic_positions_def n entry_tie
    by (rule refl)+
  moreover have "rd64 tie_time = tie_time" "rd64 (tie_time + 10) = tie_time_later"
    unfolding tie_time_def tie_time_later_def by (rule tie_time_double tie_time_plus_ten)+
  moreover have "1 / 10 ^ 6 < \<bar>9654023 / 2 ^ 19 - 1206753 / 2 ^ 16 :: real\<bar>"
    by simp
  ultimately show ?thesis
    using 1(1) 2(1) by blast
qed

text \<open>
  C10. In the continuous supernova mode (\<^verbatim>\<open>part_001\<close>), after a step every particle
  whose position and velocity were finite is at distance at most \<open>25\<close> from the origin
  (its position is \<open>supernova_move_p1\<close> of the old one: a particle that the integration
  carries beyond \<open>25\<close> is put back at the origin in the same step), and its colour has red exactly \<open>1\<close> and green and blue in \<open>[0, 1]\<close>. The
  step keeps the velocities and the lengths of the arrays, and the particle is finite
  again, so this holds after every step.
\<close>

theorem supernova_continuous_step:
  assumes "type params = SUPERNOVA" "velocities s = Some vels"
    "i * 3 + 2 < length (position s)" "i * 3 + 2 < length (color s)" "i * 3 + 2 < length vels"
    "fin_vec (get3 (position s) i)" "fin_vec (get3 vels i)"
  shows "\<exists>s' x y z g b. animate_p1 t params (Some s) = Inr (Some s')
           \<and> velocities s' = Some vels
           \<and> length (position s') = length (position s) \<and> length (color s') = length (color s)
           \<and> get3 (position s') i = supernova_move_p1 vels i (get3 (position s) i)
           \<and> get3 (position s') i = (Fin x, Fin y, Fin z) \<and> sqrt (x * x + y * y + z * z) \<le> 25
           \<and> get3 (color s') i = (Fin 1, Fin g, Fin b)
           \<and> 0 \<le> g \<and> g \<le> 1 \<and> 0 \<le> b \<and> b \<le> 1"
proof -
  let ?n = "particle_count (position s)"
  obtain ps cs where loop: "for_loop ?n (supernova_step_p1 vels) (position s, color s) = (ps, cs)"
    by fastforce
  have res: "length ps = length (position s)" "length cs = length (color s)"
      "aget3 ps i = supernova_move_p1 vels i (aget3 (position s) i)"
      "aget3 cs i = supernova_color_p1 vels i (aget3 (position s) i)"
    using particle_loop2 [where body = "supernova_step_p1 vels" and F = "supernova_move_p1 vels"
        and G = "supernova_color_p1 vels" and n = ?n and ?ps0.0 = "position s"
        and ?cs0.0 = "color s", OF supernova_step_p1_shape]
      complete_particle_counted [OF assms(3)] assms(3,4)
    by (simp_all add: loop)
  obtain x0 y0 z0 where p0: "aget3 (position s) i = (Fin x0, Fin y0, Fin z0)"
    using fin_vec_cases [OF assms(6)] assms(3) by (auto simp: get3_eq_aget3)
  obtain vx vy vz where v0: "aget3 vels i = (Fin vx, Fin vy, Fin vz)"
    using fin_vec_cases [OF assms(7)] assms(5) by (auto simp: get3_eq_aget3)
  obtain x y z where m: "get3 ps i = (Fin x, Fin y, Fin z)" "sqrt (x * x + y * y + z * z) \<le> 25"
    using supernova_move_bounded [OF v0, of x0 y0 z0] res(1,3) assms(3) p0
    by (auto simp: get3_eq_aget3)
  obtain g b where c: "get3 cs i = (Fin 1, Fin g, Fin b)" "0 \<le> g" "g \<le> 1" "0 \<le> b" "b \<le> 1"
    using supernova_color_unit [OF v0, of x0 y0 z0] res(2,4) assms(4) p0
    by (auto simp: get3_eq_aget3)
  have "animate_p1 t params (Some s) = Inr (Some (s\<lparr>position := ps, color := cs\<rparr>))"
    using assms(1,2) loop by (simp add: animate_p1_def)
  then obtain s' where s': "animate_p1 t params (Some s) = Inr (Some s')"
    "position s' = ps" "color s' = cs" "velocities s' = Some vels"
    using assms(2) by simp
  have mv: "get3 (position s') i = supernova_move_p1 vels i (get3 (position s) i)"
    using res(1,3) assms(3) by (simp add: s'(2) get3_eq_aget3)
  have r: "length (position s') = length (position s)" "length (color s') = length (color s)"
    "get3 (position s') i = (Fin x, Fin y, Fin z)" "get3 (color s') i = (Fin 1, Fin g, Fin b)"
    using res(1,2) m(1) c(1) by (simp_all add: s'(2,3))
  show ?thesis
    using s'(1,4) mv r m(2) c(2-5) by blast
qed

theorem supernova_continuous_step_witness:
  "type (sample_params SUPERNOVA) = SUPERNOVA
   \<and> velocities one_particle = Some [Fin 1, Fin 0, Fin 0]
   \<and> 0 * 3 + 2 < length (position one_particle) \<and> 0 * 3 + 2 < length (color one_particle)
   \<and> 0 * 3 + 2 < length [Fin 1, Fin 0, Fin 0]
   \<and> fin_vec (get3 (position one_particle) 0) \<and> fin_vec (get3 [Fin 1, Fin 0, Fin 0] 0)
   \<and> (\<exists>s' x y z g b. animate_p1 1 (sample_params SUPERNOVA) (Some one_particle) = Inr (Some s')
         \<and> velocities s' = Some [Fin 1, Fin 0, Fin 0]
         \<and> length (position s') = length (position one_particle)
         \<and> length (color s') = length (color one_particle)
         \<and> get3 (position s') 0 = supernova_move_p1 [Fin 1, Fin 0, Fin 0] 0 (get3 (position one_particle) 0)
         \<and> get3 (position s') 0 = (Fin x, Fin y, Fin z) \<and> sqrt (x * x + y * y + z * z) \<le> 25
         \<and> get3 (color s') 0 = (Fin 1, Fin g, Fin b)
         \<and> 0 \<le> g \<and> g \<le> 1 \<and> 0 \<le> b \<and> b \<le> 1)"
proof -
  have h1: "type (sample_params SUPERNOVA) = SUPERNOVA"
    by (simp add: sample_params_def)
  have h2: "velocities one_particle = Some [Fin 1, Fin 0, Fin 0]"
    by (simp add: one_particle_def)
  have h3: "0 * 3 + 2 < length (position one_particle)"
    by (simp add: one_particle_def)
  have h4: "0 * 3 + 2 < length (color one_particle)"
    by (simp add: one_particle_def)
  have h5: "0 * 3 + 2 < length [Fin 1, Fin 0, Fin 0]"
    by simp
  have h6: "fin_vec (get3 (position one_particle) 0)"
    by (simp add: one_particle_def get3_def fin_vec_def)
  have h7: "fin_vec (get3 [Fin 1, Fin 0, Fin 0] 0)"
    by (simp add: get3_def fin_vec_def)
  show ?thesis
    using h1 h2 h3 h4 h5 h6 h7 supernova_continuous_step [OF h1 h2 h3 h4 h5 h6 h7, of 1]
    by blast
qed

end
